theory Spec2Isabelle
  imports Main "HOL-Library.Sublist"
begin

section \<open>The course installer scripts as state-passing programs\<close>

text \<open>
  The repository holds three Python scripts: \<^verbatim>\<open>installs_required.py\<close>,
  \<^verbatim>\<open>setup_python_environment.py\<close> and \<^verbatim>\<open>install_vscode_extensions.py\<close>.
  Each is a sequence of calls into the machine it runs on (imports, subprocesses, the
  file system) with \<^verbatim>\<open>try\<close>/\<^verbatim>\<open>except\<close> around them. The model keeps the scripts'
  control flow and takes the machine as a parameter: an environment \<open>E\<close> of oracles over
  an abstract world \<open>'w\<close>. Every call into the machine is appended to a log, so that a
  theorem can say which commands a function issued and in which order.
\<close>

subsection \<open>Exceptions, results and the log\<close>

text \<open>
  The exception classes the scripts name in an \<^verbatim>\<open>except\<close> clause, and \<open>OtherException\<close>
  for every other subclass of \<^verbatim>\<open>Exception\<close>. \<^verbatim>\<open>FileNotFoundError\<close> is a subclass of
  \<^verbatim>\<open>OSError\<close>; \<open>OSError\<close> below stands for the remaining ones.
\<close>

datatype exc =
    ImportError | CalledProcessError | TimeoutExpired | FileNotFoundError
  | OSError | LookupError | OtherException

fun is_OSError :: "exc \<Rightarrow> bool" where
  "is_OSError FileNotFoundError = True"
| "is_OSError OSError = True"
| "is_OSError _ = False"

text \<open>
  A call returns, raises an exception, or leaves through \<^verbatim>\<open>sys.exit(n)\<close>. The latter
  raises \<^verbatim>\<open>SystemExit\<close>, which no \<^verbatim>\<open>except Exception\<close> catches.
\<close>

datatype 'a res = Ret 'a | Raise exc | SysExit int

text \<open>
  The exit status of the interpreter for a script whose \<^verbatim>\<open>main()\<close> ended this way: an
  uncaught exception prints a traceback and gives status 1.
\<close>

fun exit_status :: "'a res \<Rightarrow> int" where
  "exit_status (Ret _) = 0"
| "exit_status (Raise _) = 1"
| "exit_status (SysExit n) = n"

datatype json =
    JNull | JBool bool | JNum int | JStr string
  | JList "json list" | JDict "(string \<times> json) list"

text \<open>
  Calls into the machine. \<open>Run argv timeout capture\<close> is a subprocess started by
  \<^verbatim>\<open>subprocess.run\<close> or \<^verbatim>\<open>subprocess.check_call\<close>: its argument vector, its
  \<^verbatim>\<open>timeout=\<close> in seconds (\<open>None\<close>: the call waits without bound) and whether
  \<^verbatim>\<open>capture_output=True\<close> was passed.
\<close>

datatype call =
    Import string
  | Run "string list" "nat option" bool
  | Which string
  | PathExists string
  | GetSize string
  | RmTree string
  | VenvCreate string
  | MakeDirs string
  | LoadJson string
  | DumpJson string json
  | NltkFind string
  | NltkDownload string
  | SpacyLoad string
  | GeoparserNew

text \<open>
  Standard output. The scripts report every outcome on a line that starts with a check
  mark, a cross, a warning sign or a clock; these lines are modelled, with the text that
  follows the sign. \<open>Plain\<close> marks the indented detail lines of a failure report.
  Banners and progress lines (the other emoji) are left out. \<open>LineExc m t e\<close> is a line
  whose text ends with the rendering of the exception \<open>e\<close>.
\<close>

datatype mark = Ok | Fail | Warn | Clock | Plain

datatype msg = Line mark string | LineExc mark string exc

record 'w st =
  world :: 'w
  calls :: "call list"
  out :: "msg list"

type_synonym ('a, 'w) prog = "'w st \<Rightarrow> 'a res \<times> 'w st"

definition ret :: "'a \<Rightarrow> ('a, 'w) prog" where
  "ret x s = (Ret x, s)"

definition raise :: "exc \<Rightarrow> ('a, 'w) prog" where
  "raise e s = (Raise e, s)"

definition sys_exit :: "int \<Rightarrow> ('a, 'w) prog" where
  "sys_exit n s = (SysExit n, s)"

definition bind :: "('a, 'w) prog \<Rightarrow> ('a \<Rightarrow> ('b, 'w) prog) \<Rightarrow> ('b, 'w) prog" where
  "bind m f s =
     (case m s of
        (Ret x, s') \<Rightarrow> f x s'
      | (Raise e, s') \<Rightarrow> (Raise e, s')
      | (SysExit n, s') \<Rightarrow> (SysExit n, s'))"

text \<open>\<open>try_except body catches handler\<close>: \<^verbatim>\<open>try: body  except <catches> as e: handler\<close>.\<close>

definition try_except ::
  "('a, 'w) prog \<Rightarrow> (exc \<Rightarrow> bool) \<Rightarrow> (exc \<Rightarrow> ('a, 'w) prog) \<Rightarrow> ('a, 'w) prog" where
  "try_except body catches handler s =
     (case body s of
        (Raise e, s') \<Rightarrow> if catches e then handler e s' else (Raise e, s')
      | r \<Rightarrow> r)"

definition say :: "mark \<Rightarrow> string \<Rightarrow> (unit, 'w) prog" where
  "say m t s = (Ret (), s\<lparr>out := out s @ [Line m t]\<rparr>)"

definition say_exc :: "mark \<Rightarrow> string \<Rightarrow> exc \<Rightarrow> (unit, 'w) prog" where
  "say_exc m t e s = (Ret (), s\<lparr>out := out s @ [LineExc m t e]\<rparr>)"

text \<open>A call into the machine: the oracle answers and moves the world; the call is logged.\<close>

definition extcall :: "call \<Rightarrow> ('w \<Rightarrow> (exc + 'a) \<times> 'w) \<Rightarrow> ('a, 'w) prog" where
  "extcall c f s =
     (case f (world s) of
        (Inr x, w') \<Rightarrow> (Ret x, s\<lparr>world := w', calls := calls s @ [c]\<rparr>)
      | (Inl e, w') \<Rightarrow> (Raise e, s\<lparr>world := w', calls := calls s @ [c]\<rparr>))"

definition raised :: "exc option \<Rightarrow> exc + unit" where
  "raised r = (case r of None \<Rightarrow> Inr () | Some e \<Rightarrow> Inl e)"

subsection \<open>The machine\<close>

text \<open>
  What the scripts read from the interpreter and the operating system. Detection probes
  (\<open>import_o\<close>, \<open>which_o\<close>, \<open>exists_o\<close>, \<open>getsize_o\<close>, \<open>load_json_o\<close>, \<open>nltk_find_o\<close>,
  \<open>spacy_load_o\<close>, \<open>geoparser_new_o\<close>) read the world; the others may change it. An
  oracle that can raise answers \<open>Some e\<close> or \<open>Inl e\<close>. \<open>run_o argv timeout\<close> answers
  the return code and the standard error text of the process.
\<close>

record 'w env =
  version_info :: "nat \<times> nat"
  sys_executable :: string
  platform_system :: string
  username :: string
  script_file :: string
  path_join :: "string list \<Rightarrow> string"
  abspath :: "string \<Rightarrow> string"
  dirname :: "string \<Rightarrow> string"
  user_data_dir :: "string \<Rightarrow> string \<Rightarrow> string"
  import_o :: "string \<Rightarrow> 'w \<Rightarrow> exc option"
  which_o :: "string \<Rightarrow> 'w \<Rightarrow> bool"
  exists_o :: "string \<Rightarrow> 'w \<Rightarrow> bool"
  getsize_o :: "string \<Rightarrow> 'w \<Rightarrow> exc + nat"
  run_o :: "string list \<Rightarrow> nat option \<Rightarrow> 'w \<Rightarrow> (exc + int \<times> string) \<times> 'w"
  rmtree_o :: "string \<Rightarrow> 'w \<Rightarrow> exc option \<times> 'w"
  venv_create_o :: "string \<Rightarrow> 'w \<Rightarrow> exc option \<times> 'w"
  makedirs_o :: "string \<Rightarrow> 'w \<Rightarrow> exc option \<times> 'w"
  load_json_o :: "string \<Rightarrow> 'w \<Rightarrow> exc + json"
  dump_json_o :: "string \<Rightarrow> json \<Rightarrow> 'w \<Rightarrow> exc option \<times> 'w"
  nltk_find_o :: "string \<Rightarrow> 'w \<Rightarrow> exc option"
  nltk_download_o :: "string \<Rightarrow> 'w \<Rightarrow> exc option \<times> 'w"
  spacy_load_o :: "string \<Rightarrow> 'w \<Rightarrow> exc option"
  geoparser_new_o :: "'w \<Rightarrow> exc option"

text \<open>\<^verbatim>\<open>__import__(name)\<close> and the \<^verbatim>\<open>import\<close> statement.\<close>

definition py_import :: "'w env \<Rightarrow> string \<Rightarrow> (unit, 'w) prog" where
  "py_import E name = extcall (Import name) (\<lambda>w. (raised (import_o E name w), w))"

text \<open>\<^verbatim>\<open>subprocess.run(argv, capture_output=capture, text=True, timeout=t)\<close>.\<close>

definition subprocess_run ::
  "'w env \<Rightarrow> string list \<Rightarrow> nat option \<Rightarrow> bool \<Rightarrow> (int \<times> string, 'w) prog" where
  "subprocess_run E argv t capture = extcall (Run argv t capture) (run_o E argv t)"

text \<open>
  \<^verbatim>\<open>subprocess.check_call(argv)\<close>: no timeout, nothing captured; a nonzero return code
  raises \<^verbatim>\<open>CalledProcessError\<close>.
\<close>

definition check_call :: "'w env \<Rightarrow> string list \<Rightarrow> (unit, 'w) prog" where
  "check_call E argv =
     bind (subprocess_run E argv None False) (\<lambda>(rc, err).
       if rc \<noteq> 0 then raise CalledProcessError else ret ())"

subsection \<open>Strings\<close>

text \<open>
  \<^verbatim>\<open>s.split(sep)[0]\<close> for a non-empty separator: the part of \<open>s\<close> before the first
  occurrence of \<open>sep\<close>, all of \<open>s\<close> when there is none.
\<close>

fun split_head :: "string \<Rightarrow> string \<Rightarrow> string" where
  "split_head sep [] = []"
| "split_head sep (c # cs) = (if prefix sep (c # cs) then [] else c # split_head sep cs)"

text \<open>\<^verbatim>\<open>sep.join(xs)\<close>.\<close>

fun join_str :: "string \<Rightarrow> string list \<Rightarrow> string" where
  "join_str sep [] = []"
| "join_str sep [x] = x"
| "join_str sep (x # y # ys) = x @ sep @ join_str sep (y # ys)"

section \<open>installs\_required.py\<close>

text \<open>
  \<^verbatim>\<open>check_and_install_package(package_name, import_name=None)\<close>. The default import
  name is \<^verbatim>\<open>package_name.split('>=')[0].split('<')[0]\<close>.
\<close>

definition default_import_name :: "string \<Rightarrow> string" where
  "default_import_name package_name = split_head ''<'' (split_head ''>='' package_name)"

definition pip_install_cmd :: "string \<Rightarrow> string \<Rightarrow> string list" where
  "pip_install_cmd python package_name =
     [python, ''-m'', ''pip'', ''install'', ''--upgrade'', package_name]"

definition check_and_install_package ::
  "'w env \<Rightarrow> string \<Rightarrow> string option \<Rightarrow> (bool, 'w) prog" where
  "check_and_install_package E package_name import_name_arg =
     (let import_name =
            (case import_name_arg of
               None \<Rightarrow> default_import_name package_name
             | Some n \<Rightarrow> n)
      in try_except
           (bind (py_import E import_name) (\<lambda>_.
            bind (say Ok (package_name @ '' already installed'')) (\<lambda>_.
            ret True)))
           (\<lambda>e. e = ImportError)
           (\<lambda>_. try_except
                  (bind (check_call E (pip_install_cmd (sys_executable E) package_name)) (\<lambda>_.
                   bind (say Ok (package_name @ '' installed successfully'')) (\<lambda>_.
                   ret True)))
                  (\<lambda>e. e = CalledProcessError)
                  (\<lambda>_. bind (say Fail (''Failed to install '' @ package_name)) (\<lambda>_.
                        ret False))))"

text \<open>
  \<^verbatim>\<open>check_python_version()\<close>, the same in \<^verbatim>\<open>installs_required.py\<close> and in
  \<^verbatim>\<open>setup_python_environment.py\<close>: \<^verbatim>\<open>current_version < min_version\<close> compares the
  pairs \<^verbatim>\<open>(major, minor)\<close> lexicographically.
\<close>

definition min_version :: "nat \<times> nat" where
  "min_version = (3, 8)"

definition version_lt :: "nat \<times> nat \<Rightarrow> nat \<times> nat \<Rightarrow> bool" where
  "version_lt a b = (fst a < fst b \<or> (fst a = fst b \<and> snd a < snd b))"

definition digit_char :: "nat \<Rightarrow> char" where
  "digit_char d = ''0123456789'' ! d"

text \<open>\<^verbatim>\<open>str(n)\<close> of a natural number, as the f-strings print it.\<close>

function str_nat :: "nat \<Rightarrow> string" where
  "str_nat n = (if n < 10 then [digit_char n] else str_nat (n div 10) @ [digit_char (n mod 10)])"
  by pat_completeness auto
termination
  by (relation "measure (\<lambda>n. n)") auto

declare str_nat.simps [simp del]

definition check_python_version :: "'w env \<Rightarrow> (bool, 'w) prog" where
  "check_python_version E =
     (let current_version = version_info E in
      if version_lt current_version min_version
      then bind (say Fail (''Python '' @ str_nat (fst min_version) @ ''.'' @ str_nat (snd min_version)
                   @ ''+ is required, but you have '' @ str_nat (fst current_version)
                   @ ''.'' @ str_nat (snd current_version))) (\<lambda>_.
           ret False)
      else bind (say Ok (''Python version '' @ str_nat (fst current_version) @ ''.''
                   @ str_nat (snd current_version) @ '' is compatible'')) (\<lambda>_.
           ret True))"

text \<open>\<^verbatim>\<open>upgrade_pip()\<close>.\<close>

definition upgrade_pip :: "'w env \<Rightarrow> (bool, 'w) prog" where
  "upgrade_pip E =
     try_except
       (bind (check_call E (pip_install_cmd (sys_executable E) ''pip'')) (\<lambda>_.
        bind (say Ok ''Pip upgraded successfully'') (\<lambda>_.
        ret True)))
       (\<lambda>e. e = CalledProcessError)
       (\<lambda>_. bind (say Warn ''Failed to upgrade pip, continuing with current version'') (\<lambda>_.
             ret False))"

text \<open>
  \<^verbatim>\<open>check_and_download_nltk_data()\<close>: the \<^verbatim>\<open>for package, path in nltk_data_packages\<close>
  loop, then the function with its \<^verbatim>\<open>import nltk\<close> around the loop.
\<close>

definition nltk_find :: "'w env \<Rightarrow> string \<Rightarrow> (unit, 'w) prog" where
  "nltk_find E path = extcall (NltkFind path) (\<lambda>w. (raised (nltk_find_o E path w), w))"

definition nltk_download :: "'w env \<Rightarrow> string \<Rightarrow> (unit, 'w) prog" where
  "nltk_download E package =
     extcall (NltkDownload package)
       (\<lambda>w. case nltk_download_o E package w of (r, w') \<Rightarrow> (raised r, w'))"

definition nltk_data_packages :: "(string \<times> string) list" where
  "nltk_data_packages = [(''punkt'', ''tokenizers/punkt''), (''vader_lexicon'', ''vader_lexicon'')]"

fun nltk_data_loop :: "'w env \<Rightarrow> (string \<times> string) list \<Rightarrow> (unit, 'w) prog" where
  "nltk_data_loop E [] = ret ()"
| "nltk_data_loop E ((package, path) # rest) =
     bind (try_except
             (bind (nltk_find E path) (\<lambda>_.
              say Ok (''NLTK '' @ package @ '' already available'')))
             (\<lambda>e. e = LookupError)
             (\<lambda>_. bind (nltk_download E package) (\<lambda>_.
                   say Ok (''NLTK '' @ package @ '' downloaded successfully'')))) (\<lambda>_.
     nltk_data_loop E rest)"

definition ir_check_and_download_nltk_data :: "'w env \<Rightarrow> (unit, 'w) prog" where
  "ir_check_and_download_nltk_data E =
     try_except
       (bind (py_import E ''nltk'') (\<lambda>_.
        nltk_data_loop E nltk_data_packages))
       (\<lambda>e. e = ImportError)
       (\<lambda>_. say Fail ''NLTK not installed - skipping NLTK data downloads'')"

text \<open>\<^verbatim>\<open>check_and_download_spacy_model()\<close> of \<^verbatim>\<open>installs_required.py\<close>.\<close>

definition spacy_load :: "'w env \<Rightarrow> string \<Rightarrow> (unit, 'w) prog" where
  "spacy_load E model_name =
     extcall (SpacyLoad model_name) (\<lambda>w. (raised (spacy_load_o E model_name w), w))"

definition spacy_download_cmd :: "string \<Rightarrow> string \<Rightarrow> string list" where
  "spacy_download_cmd python model_name = [python, ''-m'', ''spacy'', ''download'', model_name]"

fun ir_spacy_loop :: "'w env \<Rightarrow> string list \<Rightarrow> (unit, 'w) prog" where
  "ir_spacy_loop E [] = ret ()"
| "ir_spacy_loop E (model_name # rest) =
     bind (try_except
             (bind (spacy_load E model_name) (\<lambda>_.
              say Ok (''spaCy model '' @ model_name @ '' already available'')))
             is_OSError
             (\<lambda>_. try_except
                     (bind (check_call E (spacy_download_cmd (sys_executable E) model_name)) (\<lambda>_.
                      say Ok (''spaCy model '' @ model_name @ '' downloaded successfully'')))
                     (\<lambda>e. e = CalledProcessError)
                     (\<lambda>_. say Fail (''Failed to download spaCy model '' @ model_name)))) (\<lambda>_.
     ir_spacy_loop E rest)"

definition ir_check_and_download_spacy_model :: "'w env \<Rightarrow> (unit, 'w) prog" where
  "ir_check_and_download_spacy_model E =
     try_except
       (bind (py_import E ''spacy'') (\<lambda>_.
        ir_spacy_loop E [''en_core_web_sm'', ''en_core_web_md'', ''en_core_web_trf'']))
       (\<lambda>e. e = ImportError)
       (\<lambda>_. say Fail ''spaCy not installed - skipping model download'')"

text \<open>
  \<^verbatim>\<open>check_and_setup_geoparser()\<close>. It returns \<^verbatim>\<open>True\<close>, \<^verbatim>\<open>False\<close> or, where the body of
  the inner \<^verbatim>\<open>try\<close> runs to its end, \<^verbatim>\<open>None\<close>. The download stands in the handler of
  \<^verbatim>\<open>except ImportError\<close> for the import of \<^verbatim>\<open>appdirs\<close>, as the source has it.
\<close>

definition path_exists :: "'w env \<Rightarrow> string \<Rightarrow> (bool, 'w) prog" where
  "path_exists E path = extcall (PathExists path) (\<lambda>w. (Inr (exists_o E path w), w))"

definition path_getsize :: "'w env \<Rightarrow> string \<Rightarrow> (nat, 'w) prog" where
  "path_getsize E path = extcall (GetSize path) (\<lambda>w. (getsize_o E path w, w))"

definition geoparser_new :: "'w env \<Rightarrow> (unit, 'w) prog" where
  "geoparser_new E = extcall GeoparserNew (\<lambda>w. (raised (geoparser_new_o E w), w))"

definition geonames_download_cmd :: "string \<Rightarrow> string list" where
  "geonames_download_cmd python = [python, ''-m'', ''geoparser'', ''download'', ''geonames'']"

definition check_and_setup_geoparser :: "'w env \<Rightarrow> (bool option, 'w) prog" where
  "check_and_setup_geoparser E =
     try_except
       (bind (py_import E ''geoparser'') (\<lambda>_.
        try_except
          (bind (py_import E ''appdirs'') (\<lambda>_.
           let data_dir = path_join E [user_data_dir E ''geoparser'' [], ''geonames''];
               db_path = path_join E [data_dir, ''geonames.db'']
           in bind (path_exists E db_path) (\<lambda>there.
              bind (if there then bind (path_getsize E db_path) (\<lambda>size. ret (size > 0))
                    else ret False) (\<lambda>nonempty.
              if nonempty
              then bind (say Ok ''GeoNames database already exists'') (\<lambda>_.
                   try_except
                     (bind (geoparser_new E) (\<lambda>_.
                      bind (say Ok ''Geoparser instantiated successfully - data is working'') (\<lambda>_.
                      ret (Some True))))
                     (\<lambda>_. True)
                     (\<lambda>e. bind (say_exc Warn ''Database exists but instantiation failed: '' e) (\<lambda>_.
                           ret None)))
              else bind (path_exists E data_dir) (\<lambda>_. ret None)))))
          (\<lambda>e. e = ImportError)
          (\<lambda>_. bind (say Warn ''appdirs not available, using fallback check'') (\<lambda>_.
                try_except
                  (bind (check_call E (geonames_download_cmd (sys_executable E))) (\<lambda>_.
                   bind (say Ok ''GeoNames database downloaded successfully'') (\<lambda>_.
                   ret (Some True))))
                  (\<lambda>e. e = CalledProcessError)
                  (\<lambda>e. bind (say_exc Fail ''Failed to download GeoNames database: '' e) (\<lambda>_.
                        ret (Some False)))))))
       (\<lambda>e. e = ImportError)
       (\<lambda>_. bind (say Fail ''Geoparser not installed - skipping GeoNames database setup'') (\<lambda>_.
             ret (Some False)))"

text \<open>
  \<^verbatim>\<open>main()\<close> of \<^verbatim>\<open>installs_required.py\<close>, with its two package loops. The second loop
  collects the packages whose installation returned \<^verbatim>\<open>False\<close>.
\<close>

definition ir_core_packages :: "string list" where
  "ir_core_packages =
     [''jupyterlab'', ''ipywidgets'', ''notebook'', ''pandas'', ''matplotlib'', ''plotly'',
      ''mapclassify'', ''tqdm'', ''praw'', ''nltk'', ''spacy'', ''geoparser'', ''transformers'',
      ''torch'', ''scipy'', ''cryptography'']"

definition ir_essential_packages :: "string list" where
  "ir_essential_packages = [''jupyterlab'']"

fun ir_essential_loop :: "'w env \<Rightarrow> string list \<Rightarrow> (unit, 'w) prog" where
  "ir_essential_loop E [] = ret ()"
| "ir_essential_loop E (package # rest) =
     bind (check_and_install_package E package None) (\<lambda>_.
     ir_essential_loop E rest)"

fun ir_core_loop ::
  "'w env \<Rightarrow> string list \<Rightarrow> string list \<Rightarrow> string list \<Rightarrow> (string list, 'w) prog" where
  "ir_core_loop E essential [] failed_packages = ret failed_packages"
| "ir_core_loop E essential (package # rest) failed_packages =
     (if package \<notin> set essential
      then bind (check_and_install_package E package None) (\<lambda>ok.
           ir_core_loop E essential rest
             (if \<not> ok then failed_packages @ [package] else failed_packages))
      else ir_core_loop E essential rest failed_packages)"

definition ir_main :: "'w env \<Rightarrow> (unit, 'w) prog" where
  "ir_main E =
     bind (check_python_version E) (\<lambda>compatible.
     if \<not> compatible
     then bind (say Fail ''Installation aborted due to incompatible Python version.'') (\<lambda>_.
          sys_exit 1)
     else
     bind (upgrade_pip E) (\<lambda>_.
     bind (ir_essential_loop E ir_essential_packages) (\<lambda>_.
     bind (ir_core_loop E ir_essential_packages ir_core_packages []) (\<lambda>failed_packages.
     bind (ir_check_and_download_nltk_data E) (\<lambda>_.
     bind (ir_check_and_download_spacy_model E) (\<lambda>_.
     bind (check_and_setup_geoparser E) (\<lambda>_.
     if failed_packages \<noteq> []
     then say Fail (''Failed to install: '' @ join_str '', '' failed_packages)
     else say Ok ''All packages installed successfully!'')))))))"

section \<open>setup\_python\_environment.py\<close>

text \<open>\<^verbatim>\<open>create_virtual_environment(venv_path)\<close>.\<close>

definition shutil_rmtree :: "'w env \<Rightarrow> string \<Rightarrow> (unit, 'w) prog" where
  "shutil_rmtree E path =
     extcall (RmTree path) (\<lambda>w. case rmtree_o E path w of (r, w') \<Rightarrow> (raised r, w'))"

definition venv_create :: "'w env \<Rightarrow> string \<Rightarrow> (unit, 'w) prog" where
  "venv_create E path =
     extcall (VenvCreate path) (\<lambda>w. case venv_create_o E path w of (r, w') \<Rightarrow> (raised r, w'))"

definition create_virtual_environment :: "'w env \<Rightarrow> string \<Rightarrow> (bool, 'w) prog" where
  "create_virtual_environment E venv_path =
     try_except
       (bind (path_exists E venv_path) (\<lambda>there.
        bind (if there then shutil_rmtree E venv_path else ret ()) (\<lambda>_.
        bind (venv_create E venv_path) (\<lambda>_.
        bind (say Ok ''Virtual environment created successfully'') (\<lambda>_.
        ret True)))))
       (\<lambda>_. True)
       (\<lambda>e. bind (say_exc Fail ''Failed to create virtual environment: '' e) (\<lambda>_.
             ret False))"

text \<open>\<^verbatim>\<open>get_venv_python(venv_path)\<close>.\<close>

definition get_venv_python :: "'w env \<Rightarrow> string \<Rightarrow> string" where
  "get_venv_python E venv_path =
     (if platform_system E = ''Windows''
      then path_join E [venv_path, ''Scripts'', ''python.exe'']
      else path_join E [venv_path, ''bin'', ''python''])"

text \<open>\<^verbatim>\<open>upgrade_pip_in_venv(venv_path)\<close>.\<close>

definition upgrade_pip_in_venv :: "'w env \<Rightarrow> string \<Rightarrow> (bool, 'w) prog" where
  "upgrade_pip_in_venv E venv_path =
     (let venv_python = get_venv_python E venv_path in
      try_except
        (bind (check_call E (pip_install_cmd venv_python ''pip'')) (\<lambda>_.
         bind (say Ok ''Pip upgraded successfully in virtual environment'') (\<lambda>_.
         ret True)))
        (\<lambda>e. e = CalledProcessError)
        (\<lambda>e. bind (say_exc Warn ''Failed to upgrade pip: '' e) (\<lambda>_.
              ret False)))"

text \<open>\<^verbatim>\<open>install_package_in_venv(venv_path, package_name)\<close>.\<close>

definition install_package_in_venv :: "'w env \<Rightarrow> string \<Rightarrow> string \<Rightarrow> (bool, 'w) prog" where
  "install_package_in_venv E venv_path package_name =
     (let venv_python = get_venv_python E venv_path in
      try_except
        (bind (check_call E (pip_install_cmd venv_python package_name)) (\<lambda>_.
         bind (say Ok (package_name @ '' installed successfully'')) (\<lambda>_.
         ret True)))
        (\<lambda>e. e = CalledProcessError)
        (\<lambda>e. bind (say_exc Fail (''Failed to install '' @ package_name @ '': '') e) (\<lambda>_.
              ret False)))"

text \<open>\<^verbatim>\<open>setup_jupyter_kernel(venv_path, kernel_name="ds101")\<close>.\<close>

definition kernel_install_cmd :: "string \<Rightarrow> string \<Rightarrow> string list" where
  "kernel_install_cmd python kernel_name =
     [python, ''-m'', ''ipykernel'', ''install'', ''--user'', ''--name'', kernel_name,
      ''--display-name'', ''Python (Digital Studies 101)'']"

definition setup_jupyter_kernel :: "'w env \<Rightarrow> string \<Rightarrow> string \<Rightarrow> (bool, 'w) prog" where
  "setup_jupyter_kernel E venv_path kernel_name =
     (let venv_python = get_venv_python E venv_path in
      try_except
        (bind (check_call E (kernel_install_cmd venv_python kernel_name)) (\<lambda>_.
         bind (say Ok (''Jupyter kernel '' @ [CHR 0x27] @ kernel_name @ [CHR 0x27]
                    @ '' installed successfully'')) (\<lambda>_.
         ret True)))
        (\<lambda>e. e = CalledProcessError)
        (\<lambda>e. bind (say_exc Fail ''Failed to setup Jupyter kernel: '' e) (\<lambda>_.
              ret False)))"

text \<open>
  \<^verbatim>\<open>create_vscode_settings(venv_path, workspace_path)\<close>. A Python \<^verbatim>\<open>dict\<close> keeps its keys
  in insertion order: \<^verbatim>\<open>d[k] = v\<close> replaces the value of a key that is there, in place, and
  appends a new key; \<^verbatim>\<open>d.update(other)\<close> does so for every item of \<^verbatim>\<open>other\<close>, in order.
  A value that \<^verbatim>\<open>json.load\<close> returns and that is not a \<^verbatim>\<open>dict\<close> has no \<^verbatim>\<open>update\<close>: the call
  raises \<^verbatim>\<open>AttributeError\<close>.
\<close>

fun dict_set :: "(string \<times> json) list \<Rightarrow> string \<Rightarrow> json \<Rightarrow> (string \<times> json) list" where
  "dict_set [] k v = [(k, v)]"
| "dict_set ((k', v') # d) k v = (if k' = k then (k, v) # d else (k', v') # dict_set d k v)"

fun dict_update :: "(string \<times> json) list \<Rightarrow> (string \<times> json) list \<Rightarrow> (string \<times> json) list" where
  "dict_update d [] = d"
| "dict_update d ((k, v) # other) = dict_update (dict_set d k v) other"

definition os_makedirs :: "'w env \<Rightarrow> string \<Rightarrow> (unit, 'w) prog" where
  "os_makedirs E path =
     extcall (MakeDirs path) (\<lambda>w. case makedirs_o E path w of (r, w') \<Rightarrow> (raised r, w'))"

definition json_load :: "'w env \<Rightarrow> string \<Rightarrow> (json, 'w) prog" where
  "json_load E path = extcall (LoadJson path) (\<lambda>w. (load_json_o E path w, w))"

definition json_dump :: "'w env \<Rightarrow> string \<Rightarrow> json \<Rightarrow> (unit, 'w) prog" where
  "json_dump E path v =
     extcall (DumpJson path v) (\<lambda>w. case dump_json_o E path v w of (r, w') \<Rightarrow> (raised r, w'))"

definition new_settings :: "string \<Rightarrow> (string \<times> json) list" where
  "new_settings venv_python =
     [(''python.pythonPath'', JStr venv_python),
      (''python.defaultInterpreterPath'', JStr venv_python),
      (''jupyter.kernels.filter'',
         JList [JDict [(''path'', JStr venv_python), (''type'', JStr ''pythonEnvironment'')]])]"

definition create_vscode_settings :: "'w env \<Rightarrow> string \<Rightarrow> string \<Rightarrow> (bool, 'w) prog" where
  "create_vscode_settings E venv_path workspace_path =
     (let vscode_dir = path_join E [workspace_path, ''.vscode''];
          settings_file = path_join E [vscode_dir, ''settings.json'']
      in bind (os_makedirs E vscode_dir) (\<lambda>_.
         let venv_python = abspath E (get_venv_python E venv_path);
             settings = new_settings venv_python
         in try_except
              (bind (path_exists E settings_file) (\<lambda>there.
               bind (if there
                     then bind (json_load E settings_file) (\<lambda>existing_settings.
                          case existing_settings of
                            JDict d \<Rightarrow> ret (dict_update d settings)
                          | _ \<Rightarrow> raise OtherException)
                     else ret settings) (\<lambda>settings.
               bind (json_dump E settings_file (JDict settings)) (\<lambda>_.
               bind (say Ok (''VS Code settings created at: '' @ settings_file)) (\<lambda>_.
               ret True)))))
              (\<lambda>_. True)
              (\<lambda>e. bind (say_exc Fail ''Failed to create VS Code settings: '' e) (\<lambda>_.
                    ret False))))"

text \<open>
  \<^verbatim>\<open>check_and_download_nltk_data(venv_path)\<close>: the download script is a string constant
  of the source, handed to the interpreter of the environment after \<^verbatim>\<open>-c\<close>; the model takes
  its text as the parameter \<open>nltk_script\<close>.
\<close>

definition sp_check_and_download_nltk_data ::
  "'w env \<Rightarrow> string \<Rightarrow> string \<Rightarrow> (bool, 'w) prog" where
  "sp_check_and_download_nltk_data E nltk_script venv_path =
     (let venv_python = get_venv_python E venv_path in
      try_except
        (bind (check_call E [venv_python, ''-c'', nltk_script]) (\<lambda>_.
         ret True))
        (\<lambda>e. e = CalledProcessError)
        (\<lambda>e. bind (say_exc Fail ''Failed to setup NLTK data: '' e) (\<lambda>_.
              ret False)))"

text \<open>\<^verbatim>\<open>check_and_download_spacy_model(venv_path)\<close> of \<^verbatim>\<open>setup_python_environment.py\<close>.\<close>

fun sp_spacy_loop :: "'w env \<Rightarrow> string \<Rightarrow> string list \<Rightarrow> (unit, 'w) prog" where
  "sp_spacy_loop E venv_python [] = ret ()"
| "sp_spacy_loop E venv_python (model_name # rest) =
     bind (try_except
             (bind (check_call E (spacy_download_cmd venv_python model_name)) (\<lambda>_.
              say Ok (''spaCy model '' @ model_name @ '' downloaded successfully'')))
             (\<lambda>e. e = CalledProcessError)
             (\<lambda>_. say Warn (''Failed to download spaCy model '' @ model_name
                     @ '' - you can install it later''))) (\<lambda>_.
     sp_spacy_loop E venv_python rest)"

definition sp_check_and_download_spacy_model :: "'w env \<Rightarrow> string \<Rightarrow> (unit, 'w) prog" where
  "sp_check_and_download_spacy_model E venv_path =
     (let venv_python = get_venv_python E venv_path;
          models = [''en_core_web_sm'', ''en_core_web_md'']
      in sp_spacy_loop E venv_python models)"

text \<open>\<^verbatim>\<open>setup_geoparser(venv_path)\<close>.\<close>

definition setup_geoparser :: "'w env \<Rightarrow> string \<Rightarrow> (bool, 'w) prog" where
  "setup_geoparser E venv_path =
     (let venv_python = get_venv_python E venv_path in
      try_except
        (bind (check_call E (geonames_download_cmd venv_python)) (\<lambda>_.
         bind (say Ok ''GeoNames database downloaded successfully'') (\<lambda>_.
         ret True)))
        (\<lambda>e. e = CalledProcessError)
        (\<lambda>e. bind (say_exc Warn ''Failed to setup geoparser: '' e) (\<lambda>_.
              ret False)))"

text \<open>
  \<^verbatim>\<open>main()\<close> of \<^verbatim>\<open>setup_python_environment.py\<close>. Its two package loops come first; the
  block \<open>sp_install_packages\<close> is the part of \<^verbatim>\<open>main\<close> from
  \<^verbatim>\<open>failed_packages = []\<close> to the end of the second loop, with the exit between the loops.
\<close>

definition sp_packages :: "string list" where
  "sp_packages =
     [''ipykernel'', ''jupyterlab'', ''jupyter'', ''ipywidgets'', ''notebook'', ''pandas'',
      ''numpy'', ''matplotlib'', ''seaborn'', ''plotly'', ''mapclassify'', ''tqdm'', ''praw'',
      ''nltk'', ''spacy'', ''geoparser'', ''transformers'', ''torch'', ''scipy'',
      ''scikit-learn'', ''cryptography'', ''requests'']"

definition sp_essential_packages :: "string list" where
  "sp_essential_packages = [''ipykernel'', ''jupyterlab'', ''jupyter'']"

fun sp_essential_loop ::
  "'w env \<Rightarrow> string \<Rightarrow> string list \<Rightarrow> string list \<Rightarrow> (string list, 'w) prog" where
  "sp_essential_loop E venv_path [] failed_packages = ret failed_packages"
| "sp_essential_loop E venv_path (package # rest) failed_packages =
     bind (install_package_in_venv E venv_path package) (\<lambda>ok.
     if \<not> ok
     then bind (say Fail (''Critical package '' @ package @ '' failed to install!'')) (\<lambda>_.
          sp_essential_loop E venv_path rest (failed_packages @ [package]))
     else sp_essential_loop E venv_path rest failed_packages)"

fun sp_rest_loop ::
  "'w env \<Rightarrow> string \<Rightarrow> string list \<Rightarrow> string list \<Rightarrow> string list \<Rightarrow> (string list, 'w) prog" where
  "sp_rest_loop E venv_path essential [] failed_packages = ret failed_packages"
| "sp_rest_loop E venv_path essential (package # rest) failed_packages =
     (if package \<notin> set essential
      then bind (install_package_in_venv E venv_path package) (\<lambda>ok.
           sp_rest_loop E venv_path essential rest
             (if \<not> ok then failed_packages @ [package] else failed_packages))
      else sp_rest_loop E venv_path essential rest failed_packages)"

definition sp_install_packages :: "'w env \<Rightarrow> string \<Rightarrow> (string list, 'w) prog" where
  "sp_install_packages E venv_path =
     bind (sp_essential_loop E venv_path sp_essential_packages []) (\<lambda>failed_packages.
     if list_ex (\<lambda>pkg. pkg \<in> set failed_packages) sp_essential_packages
     then bind (say Fail ''Critical Jupyter packages failed to install. Cannot continue.'') (\<lambda>_.
          sys_exit 1)
     else sp_rest_loop E venv_path sp_essential_packages sp_packages failed_packages)"

definition sp_main :: "'w env \<Rightarrow> string \<Rightarrow> (unit, 'w) prog" where
  "sp_main E nltk_script =
     bind (check_python_version E) (\<lambda>compatible.
     if \<not> compatible
     then bind (say Fail ''Setup aborted due to incompatible Python version.'') (\<lambda>_.
          sys_exit 1)
     else
     let script_dir = dirname E (abspath E (script_file E));
         venv_name = ''ds101_env'';
         venv_path = path_join E [script_dir, venv_name]
     in
     bind (create_virtual_environment E venv_path) (\<lambda>created.
     if \<not> created
     then bind (say Fail ''Failed to create virtual environment'') (\<lambda>_.
          sys_exit 1)
     else
     bind (upgrade_pip_in_venv E venv_path) (\<lambda>upgraded.
     bind (if \<not> upgraded then say Warn ''Pip upgrade failed, continuing anyway...''
           else ret ()) (\<lambda>_.
     bind (sp_install_packages E venv_path) (\<lambda>failed_packages.
     bind (setup_jupyter_kernel E venv_path ''ds101'') (\<lambda>registered.
     if \<not> registered
     then bind (say Fail ''Failed to setup Jupyter kernel'') (\<lambda>_.
          sys_exit 1)
     else
     bind (create_vscode_settings E venv_path script_dir) (\<lambda>_.
     bind (sp_check_and_download_nltk_data E nltk_script venv_path) (\<lambda>_.
     bind (sp_check_and_download_spacy_model E venv_path) (\<lambda>_.
     bind (setup_geoparser E venv_path) (\<lambda>_.
     if failed_packages \<noteq> []
     then say Warn (''Some packages failed to install: '' @ join_str '', '' failed_packages)
     else say Ok ''All packages installed successfully!''))))))))))"

section \<open>install\_vscode\_extensions.py\<close>

text \<open>
  \<^verbatim>\<open>check_vscode_installed()\<close>. The three loops and branches that probe a candidate return
  the candidate as soon as its \<^verbatim>\<open>--version\<close> probe exits with status 0; \<open>Some c\<close> below is
  that early \<^verbatim>\<open>return c\<close>, \<open>None\<close> is falling through to the code that follows.
\<close>

definition shutil_which :: "'w env \<Rightarrow> string \<Rightarrow> (bool, 'w) prog" where
  "shutil_which E cmd = extcall (Which cmd) (\<lambda>w. (Inr (which_o E cmd w), w))"

definition probe_catches :: "exc \<Rightarrow> bool" where
  "probe_catches e = (e = TimeoutExpired \<or> e = CalledProcessError \<or> e = FileNotFoundError)"

fun vs_command_loop :: "'w env \<Rightarrow> string list \<Rightarrow> (string option, 'w) prog" where
  "vs_command_loop E [] = ret None"
| "vs_command_loop E (cmd # rest) =
     bind (shutil_which E cmd) (\<lambda>found.
     if found
     then bind (try_except
                  (bind (subprocess_run E [cmd, ''--version''] (Some 10) True) (\<lambda>(returncode, stderr).
                   if returncode = 0
                   then bind (say Ok (''Found working VS Code command: '' @ cmd)) (\<lambda>_.
                        ret (Some cmd))
                   else bind (say Warn (''Found '' @ cmd @ '' but it's not working properly'')) (\<lambda>_.
                        ret None)))
                  probe_catches
                  (\<lambda>_. bind (say Warn (''Found '' @ cmd @ '' in PATH but it's not functional'')) (\<lambda>_.
                        ret None))) (\<lambda>returned.
          case returned of
            Some c \<Rightarrow> ret (Some c)
          | None \<Rightarrow> vs_command_loop E rest)
     else vs_command_loop E rest)"

fun vs_path_loop :: "'w env \<Rightarrow> string list \<Rightarrow> (string option, 'w) prog" where
  "vs_path_loop E [] = ret None"
| "vs_path_loop E (path # rest) =
     bind (path_exists E path) (\<lambda>there.
     if there
     then bind (try_except
                  (bind (subprocess_run E [path, ''--version''] (Some 10) True) (\<lambda>(returncode, stderr).
                   if returncode = 0
                   then bind (say Ok (''Found working VS Code at: '' @ path)) (\<lambda>_.
                        ret (Some path))
                   else ret None))
                  probe_catches
                  (\<lambda>_. ret None)) (\<lambda>returned.
          case returned of
            Some p \<Rightarrow> ret (Some p)
          | None \<Rightarrow> vs_path_loop E rest)
     else vs_path_loop E rest)"

text \<open>A Windows path from its components, joined by backslashes.\<close>

definition win_path :: "string list \<Rightarrow> string" where
  "win_path parts = join_str [CHR 0x5C] parts"

definition windows_paths :: "string \<Rightarrow> string list" where
  "windows_paths user =
     [win_path [''C:'', ''Program Files'', ''Microsoft VS Code'', ''bin'', ''code.cmd''],
      win_path [''C:'', ''Program Files (x86)'', ''Microsoft VS Code'', ''bin'', ''code.cmd''],
      win_path [''C:'', ''Users'', user, ''AppData'', ''Local'', ''Programs'', ''Microsoft VS Code'',
                ''bin'', ''code.cmd''],
      win_path [''C:'', ''Program Files'', ''Microsoft VS Code'', ''Code.exe''],
      win_path [''C:'', ''Program Files (x86)'', ''Microsoft VS Code'', ''Code.exe''],
      win_path [''C:'', ''Users'', user, ''AppData'', ''Local'', ''Programs'', ''Microsoft VS Code'',
                ''Code.exe'']]"

definition macos_path :: string where
  "macos_path = ''/Applications/Visual Studio Code.app/Contents/Resources/app/bin/code''"

definition check_vscode_installed :: "'w env \<Rightarrow> (string option, 'w) prog" where
  "check_vscode_installed E =
     bind (vs_command_loop E [''code'', ''code-insiders'']) (\<lambda>returned.
     case returned of
       Some cmd \<Rightarrow> ret (Some cmd)
     | None \<Rightarrow>
     let system = platform_system E in
     bind (if system = ''Windows''
           then vs_path_loop E (windows_paths (username E))
           else if system = ''Darwin''
           then bind (path_exists E macos_path) (\<lambda>there.
                if there
                then try_except
                       (bind (subprocess_run E [macos_path, ''--version''] (Some 10) True)
                          (\<lambda>(returncode, stderr).
                        if returncode = 0
                        then bind (say Ok (''Found working VS Code at: '' @ macos_path)) (\<lambda>_.
                             ret (Some macos_path))
                        else ret None))
                       probe_catches
                       (\<lambda>_. ret None)
                else ret None)
           else ret None) (\<lambda>returned.
     case returned of
       Some p \<Rightarrow> ret (Some p)
     | None \<Rightarrow>
     bind (say Fail ''Visual Studio Code not found or not working'') (\<lambda>_.
     ret None)))"

text \<open>
  \<^verbatim>\<open>install_extension(vscode_cmd, extension_id, extension_name)\<close>. \<^verbatim>\<open>s.strip()\<close> removes
  the white space at both ends of \<open>s\<close> (the ASCII white space characters here). The three
  \<^verbatim>\<open>except\<close> clauses are tried in order; the last one, \<^verbatim>\<open>except Exception\<close>, catches
  every exception the first two do not.
\<close>

definition is_space :: "char \<Rightarrow> bool" where
  "is_space c = (c \<in> set [CHR 0x09, CHR 0x0A, CHR 0x0B, CHR 0x0C, CHR 0x0D,
                          CHR 0x1C, CHR 0x1D, CHR 0x1E, CHR 0x1F, CHR 0x20])"

definition py_strip :: "string \<Rightarrow> string" where
  "py_strip s = rev (dropWhile is_space (rev (dropWhile is_space s)))"

definition install_extension_cmd :: "string \<Rightarrow> string \<Rightarrow> string list" where
  "install_extension_cmd vscode_cmd extension_id = [vscode_cmd, ''--install-extension'', extension_id]"

definition install_extension :: "'w env \<Rightarrow> string \<Rightarrow> string \<Rightarrow> string \<Rightarrow> (bool, 'w) prog" where
  "install_extension E vscode_cmd extension_id extension_name =
     try_except
       (bind (subprocess_run E (install_extension_cmd vscode_cmd extension_id) (Some 60) True)
          (\<lambda>(returncode, stderr).
        if returncode = 0
        then bind (say Ok (extension_name @ '' installed successfully'')) (\<lambda>_.
             ret True)
        else bind (say Fail (''Failed to install '' @ extension_name)) (\<lambda>_.
             bind (if stderr \<noteq> [] then say Plain (''Error: '' @ py_strip stderr) else ret ()) (\<lambda>_.
             ret False))))
       (\<lambda>_. True)
       (\<lambda>e. if e = TimeoutExpired
            then bind (say Clock (extension_name @ '' installation timed out'')) (\<lambda>_.
                 ret False)
            else if e = FileNotFoundError
            then bind (say Fail (''VS Code command not found when installing '' @ extension_name)) (\<lambda>_.
                 ret False)
            else bind (say_exc Fail (''Unexpected error installing '' @ extension_name @ '': '') e) (\<lambda>_.
                 ret False))"

text \<open>
  \<^verbatim>\<open>main()\<close> of \<^verbatim>\<open>install_vscode_extensions.py\<close>, with its loop over the extensions.
  \<^verbatim>\<open>if not vscode_cmd\<close> holds for \<^verbatim>\<open>None\<close> and for the empty string.
\<close>

definition vs_extensions :: "(string \<times> string) list" where
  "vs_extensions =
     [(''ms-python.python'', ''Python''),
      (''ms-python.pylint'', ''Pylint (Python Linting)''),
      (''ms-toolsai.jupyter'', ''Jupyter''),
      (''ms-toolsai.jupyter-keymap'', ''Jupyter Keymap''),
      (''ms-toolsai.jupyter-renderers'', ''Jupyter Notebook Renderers''),
      (''mechatroner.rainbow-csv'', ''Rainbow CSV''),
      (''GrapeCity.gc-excelviewer'', ''Excel Viewer''),
      (''ms-vscode.vscode-json'', ''JSON Language Features''),
      (''redhat.vscode-yaml'', ''YAML Support''),
      (''yzhang.markdown-all-in-one'', ''Markdown All in One''),
      (''shd101wyy.markdown-preview-enhanced'', ''Markdown Preview Enhanced''),
      (''ms-vscode.vscode-typescript-next'', ''TypeScript and JavaScript''),
      (''ms-vscode-remote.vscode-remote-extensionpack'', ''Remote Development''),
      (''streetsidesoftware.code-spell-checker'', ''Code Spell Checker'')]"

fun vs_install_loop ::
  "'w env \<Rightarrow> string \<Rightarrow> (string \<times> string) list \<Rightarrow> string list \<Rightarrow> (string list, 'w) prog" where
  "vs_install_loop E vscode_cmd [] failed_extensions = ret failed_extensions"
| "vs_install_loop E vscode_cmd ((extension_id, extension_name) # rest) failed_extensions =
     bind (install_extension E vscode_cmd extension_id extension_name) (\<lambda>ok.
     vs_install_loop E vscode_cmd rest
       (if \<not> ok then failed_extensions @ [extension_name] else failed_extensions))"

fun say_each :: "mark \<Rightarrow> string list \<Rightarrow> (unit, 'w) prog" where
  "say_each m [] = ret ()"
| "say_each m (t # ts) = bind (say m t) (\<lambda>_. say_each m ts)"

definition vs_main :: "'w env \<Rightarrow> (unit, 'w) prog" where
  "vs_main E =
     bind (check_vscode_installed E) (\<lambda>vscode_cmd.
     case vscode_cmd of
       None \<Rightarrow> sys_exit 1
     | Some cmd \<Rightarrow>
     if cmd = []
     then sys_exit 1
     else
     bind (vs_install_loop E cmd vs_extensions []) (\<lambda>failed_extensions.
     if failed_extensions \<noteq> []
     then bind (say Fail (''Failed to install '' @ str_nat (length failed_extensions)
                  @ '' extension(s):'')) (\<lambda>_.
          say_each Plain failed_extensions)
     else say Ok ''All extensions installed successfully!''))"

section \<open>A simulated machine\<close>

text \<open>
  A concrete machine for the examples. Its world is the list of what is present: the names
  of importable modules, of commands on the search path, and the paths that exist. A
  process exits with the status \<open>rc argv\<close>; one that exits with status 0 adds
  \<open>provides argv\<close> to the world. Every process starts, no call runs into its timeout.
  Deleting a tree removes the path and every entry below it (every entry the path is a
  prefix of).
\<close>

definition sim_env ::
  "nat \<times> nat \<Rightarrow> string \<Rightarrow> (string list \<Rightarrow> int) \<Rightarrow> (string list \<Rightarrow> string list)
   \<Rightarrow> (string list) env" where
  "sim_env ver system rc provides =
     \<lparr> version_info = ver,
       sys_executable = ''python3'',
       platform_system = system,
       username = ''student'',
       script_file = ''/course/setup_python_environment.py'',
       path_join = join_str ''/'',
       abspath = (\<lambda>p. p),
       dirname = (\<lambda>p. ''/course''),
       user_data_dir = (\<lambda>appname author. ''/home/student/.local/share/'' @ appname),
       import_o = (\<lambda>name w. if name \<in> set w then None else Some ImportError),
       which_o = (\<lambda>cmd w. cmd \<in> set w),
       exists_o = (\<lambda>path w. path \<in> set w),
       getsize_o = (\<lambda>path w. if path \<in> set w then Inr 1 else Inl FileNotFoundError),
       run_o = (\<lambda>argv t w. if rc argv = 0 then (Inr (0, []), provides argv @ w)
                             else (Inr (rc argv, ''failed''), w)),
       rmtree_o = (\<lambda>path w. (None, filter (\<lambda>q. \<not> prefix path q) w)),
       venv_create_o = (\<lambda>path w. (None, path # w)),
       makedirs_o = (\<lambda>path w. (None, path # w)),
       load_json_o = (\<lambda>path w. if path \<in> set w then Inr (JDict []) else Inl FileNotFoundError),
       dump_json_o = (\<lambda>path v w. (None, path # w)),
       nltk_find_o = (\<lambda>path w. if path \<in> set w then None else Some LookupError),
       nltk_download_o = (\<lambda>package w. (None, w)),
       spacy_load_o = (\<lambda>model w. if model \<in> set w then None else Some OSError),
       geoparser_new_o = (\<lambda>w. if ''geonames'' \<in> set w then None else Some OtherException) \<rparr>"

text \<open>What a successful \<^verbatim>\<open>pip install --upgrade p\<close> provides when the module is named as the package.\<close>

definition pip_provides :: "string list \<Rightarrow> string list" where
  "pip_provides argv =
     (if take 4 (drop 1 argv) = [''-m'', ''pip'', ''install'', ''--upgrade''] \<and> length argv = 6
      then [last argv] else [])"

definition start :: "'w \<Rightarrow> 'w st" where
  "start w = \<lparr> world = w, calls = [], out = [] \<rparr>"

text \<open>The simulated machine on which every JSON file that is read holds the value \<open>j\<close>.\<close>

definition sim_env_json :: "json \<Rightarrow> (string list) env" where
  "sim_env_json j =
     (sim_env (3, 11) ''Linux'' (\<lambda>argv. 0) pip_provides)\<lparr>load_json_o := (\<lambda>path w. Inr j)\<rparr>"

section \<open>Vocabulary of the properties\<close>

text \<open>
  \<open>calls_only P m\<close>: whatever the state, the calls that \<open>m\<close> adds to the log all satisfy
  \<open>P\<close> (and \<open>m\<close> removes none). \<open>no_exit m\<close>: \<open>m\<close> never leaves through \<^verbatim>\<open>sys.exit\<close>.
\<close>

definition calls_only :: "(call \<Rightarrow> bool) \<Rightarrow> ('a, 'w) prog \<Rightarrow> bool" where
  "calls_only P m = (\<forall>s. \<exists>cs. calls (snd (m s)) = calls s @ cs \<and> list_all P cs)"

definition no_exit :: "('a, 'w) prog \<Rightarrow> bool" where
  "no_exit m = (\<forall>s n. fst (m s) \<noteq> SysExit n)"

text \<open>
  The calls that only look at the machine: the search for a command, the existence test
  for a path, and a process started with the single argument \<^verbatim>\<open>--version\<close>.
\<close>

fun is_probe :: "call \<Rightarrow> bool" where
  "is_probe (Which _) = True"
| "is_probe (PathExists _) = True"
| "is_probe (Run argv _ _) = (\<exists>cmd. argv = [cmd, ''--version''])"
| "is_probe _ = False"

text \<open>
  \<open>exits_after G m\<close>: whenever \<open>m\<close> leaves through \<^verbatim>\<open>sys.exit\<close>, the status is 1 and the
  last line printed before is one of the reports \<open>G\<close>.
\<close>

definition exits_after :: "msg set \<Rightarrow> ('a, 'w) prog \<Rightarrow> bool" where
  "exits_after G m =
     (\<forall>s n s'. m s = (SysExit n, s') \<longrightarrow> n = 1 \<and> out s' \<noteq> [] \<and> last (out s') \<in> G)"

section \<open>Properties\<close>

subsection \<open>Unfolding the combinators and the machine\<close>

lemmas prog_defs = ret_def raise_def bind_def try_except_def say_def say_exc_def
  extcall_def raised_def sys_exit_def

lemma sim_env_simps:
  "version_info (sim_env ver system rc provides) = ver"
  "sys_executable (sim_env ver system rc provides) = ''python3''"
  "platform_system (sim_env ver system rc provides) = system"
  "username (sim_env ver system rc provides) = ''student''"
  "script_file (sim_env ver system rc provides) = ''/course/setup_python_environment.py''"
  "path_join (sim_env ver system rc provides) = join_str ''/''"
  "abspath (sim_env ver system rc provides) p = p"
  "dirname (sim_env ver system rc provides) p = ''/course''"
  "user_data_dir (sim_env ver system rc provides) appname author
     = ''/home/student/.local/share/'' @ appname"
  "import_o (sim_env ver system rc provides) name w
     = (if name \<in> set w then None else Some ImportError)"
  "which_o (sim_env ver system rc provides) cmd w = (cmd \<in> set w)"
  "exists_o (sim_env ver system rc provides) path w = (path \<in> set w)"
  "getsize_o (sim_env ver system rc provides) path w
     = (if path \<in> set w then Inr 1 else Inl FileNotFoundError)"
  "run_o (sim_env ver system rc provides) argv t w
     = (if rc argv = 0 then (Inr (0, []), provides argv @ w) else (Inr (rc argv, ''failed''), w))"
  "rmtree_o (sim_env ver system rc provides) path w
     = (None, filter (\<lambda>q. \<not> prefix path q) w)"
  "venv_create_o (sim_env ver system rc provides) path w = (None, path # w)"
  "makedirs_o (sim_env ver system rc provides) path w = (None, path # w)"
  "load_json_o (sim_env ver system rc provides) path w
     = (if path \<in> set w then Inr (JDict []) else Inl FileNotFoundError)"
  "dump_json_o (sim_env ver system rc provides) path v w = (None, path # w)"
  "nltk_find_o (sim_env ver system rc provides) path w
     = (if path \<in> set w then None else Some LookupError)"
  "nltk_download_o (sim_env ver system rc provides) package w = (None, w)"
  "spacy_load_o (sim_env ver system rc provides) model w
     = (if model \<in> set w then None else Some OSError)"
  "geoparser_new_o (sim_env ver system rc provides) w
     = (if ''geonames'' \<in> set w then None else Some OtherException)"
  by (simp_all add: sim_env_def)

lemmas call_defs = py_import_def subprocess_run_def check_call_def nltk_find_def nltk_download_def
  spacy_load_def path_exists_def path_getsize_def geoparser_new_def shutil_rmtree_def
  venv_create_def os_makedirs_def json_load_def json_dump_def shutil_which_def

subsection \<open>The default import name\<close>

lemma split_head_decomp:
  "\<exists>rest. s = split_head sep s @ rest \<and> (rest = [] \<or> prefix sep rest)"
proof (induction s)
  case Nil
  show ?case by simp
next
  case (Cons c cs)
  show ?case
  proof (cases "prefix sep (c # cs)")
    case True
    then show ?thesis by simp
  next
    case False
    from Cons obtain rest where "cs = split_head sep cs @ rest" "rest = [] \<or> prefix sep rest"
      by blast
    with False show ?thesis by auto
  qed
qed

lemma split_head_no_sep:
  "i < length (split_head sep s) \<Longrightarrow> \<not> prefix sep (drop i s)"
proof (induction s arbitrary: i)
  case Nil
  then show ?case by simp
next
  case (Cons c cs)
  show ?case
  proof (cases "prefix sep (c # cs)")
    case True
    with Cons.prems show ?thesis by simp
  next
    case False
    show ?thesis
    proof (cases i)
      case 0
      with False show ?thesis by simp
    next
      case (Suc j)
      with Cons.prems False have "j < length (split_head sep cs)" by simp
      then have "\<not> prefix sep (drop j cs)" by (rule Cons.IH)
      with Suc show ?thesis by simp
    qed
  qed
qed

lemma split_head_is_take: "split_head sep s = take (length (split_head sep s)) s"
proof -
  obtain rest where "s = split_head sep s @ rest"
    using split_head_decomp by blast
  then have "take (length (split_head sep s)) s
             = take (length (split_head sep s)) (split_head sep s @ rest)"
    by simp
  then show ?thesis by simp
qed

lemma split_head_length: "length (split_head sep s) \<le> length s"
  by (induction s) auto

lemma prefix_single_append: "xs \<noteq> [] \<Longrightarrow> prefix [c] (xs @ ys) = prefix [c] xs"
  by (cases xs) auto

lemma default_import_name_decomp:
  "\<exists>rest. p = default_import_name p @ rest \<and>
          (rest = [] \<or> prefix ''>='' rest \<or> prefix ''<'' rest)"
proof -
  obtain r1 where r1: "p = split_head ''>='' p @ r1" "r1 = [] \<or> prefix ''>='' r1"
    using split_head_decomp by blast
  obtain r2 where r2: "split_head ''>='' p = split_head ''<'' (split_head ''>='' p) @ r2"
      "r2 = [] \<or> prefix ''<'' r2"
    using split_head_decomp by blast
  have "p = default_import_name p @ (r2 @ r1)"
    unfolding default_import_name_def using r1(1) r2(1) by (metis append.assoc)
  moreover have "r2 @ r1 = [] \<or> prefix ''>='' (r2 @ r1) \<or> prefix ''<'' (r2 @ r1)"
    using r1(2) r2(2) by (cases r2) auto
  ultimately show ?thesis by blast
qed

lemma default_import_name_no_specifier:
  assumes "i < length (default_import_name p)"
  shows "\<not> prefix ''>='' (drop i p) \<and> \<not> prefix ''<'' (drop i p)"
proof -
  let ?a = "split_head ''>='' p"
  obtain r1 where r1: "?a @ r1 = p"
    using split_head_decomp [of p "''>=''"] by metis
  have n: "i < length (split_head ''<'' ?a)"
    using assms by (simp add: default_import_name_def)
  have "length (split_head ''<'' ?a) \<le> length ?a"
    by (rule split_head_length)
  with n have ia: "i < length ?a" by simp
  have 1: "\<not> prefix ''>='' (drop i p)" using ia by (rule split_head_no_sep)
  have 2: "\<not> prefix ''<'' (drop i ?a)" using n by (rule split_head_no_sep)
  have "drop i (?a @ r1) = drop i ?a @ r1" using ia by simp
  then have "drop i p = drop i ?a @ r1" using r1 by simp
  moreover have "drop i ?a \<noteq> []" using ia by simp
  ultimately have "prefix ''<'' (drop i p) = prefix ''<'' (drop i ?a)"
    by (simp add: prefix_single_append)
  with 1 2 show ?thesis by simp
qed

lemma check_and_install_package_first_import:
  "\<exists>cs. calls (snd (check_and_install_package E p None s))
          = calls s @ Import (default_import_name p) # cs
        \<and> (cs = [] \<or> cs = [Run (pip_install_cmd (sys_executable E) p) None False])"
  by (auto simp: check_and_install_package_def prog_defs py_import_def check_call_def
      subprocess_run_def Let_def split: option.splits sum.splits prod.splits res.splits if_splits)

text \<open>
  Claim C9. With no explicit import name, the module name \<open>check_and_install_package\<close>
  probes is the package name cut at the first occurrence of \<^verbatim>\<open>>=\<close> or \<^verbatim>\<open><\<close>: the package
  name is that module name followed by nothing or by a rest that starts with one of the
  two specifiers, no position inside the module name starts a specifier, and the first
  call of the function is the import of exactly that name; the only call that can follow
  is the installer, so no other name is ever imported.
\<close>

theorem check_and_install_package_import_name:
  "(\<exists>rest. p = default_import_name p @ rest \<and>
           (rest = [] \<or> prefix ''>='' rest \<or> prefix ''<'' rest))
   \<and> (\<forall>i < length (default_import_name p).
          \<not> prefix ''>='' (drop i p) \<and> \<not> prefix ''<'' (drop i p))
   \<and> (\<exists>cs. calls (snd (check_and_install_package E p None s))
              = calls s @ Import (default_import_name p) # cs
            \<and> (cs = [] \<or> cs = [Run (pip_install_cmd (sys_executable E) p) None False]))"
  using default_import_name_decomp [of p] default_import_name_no_specifier [of _ p]
    check_and_install_package_first_import [of E p s]
  by blast

theorem check_and_install_package_import_name_witness:
  "default_import_name ''pandas>=1.0,<3'' = ''pandas''
   \<and> (5::nat) < length (default_import_name ''pandas>=1.0,<3'')
   \<and> \<not> prefix ''>='' (drop 5 ''pandas>=1.0,<3'')
   \<and> \<not> prefix ''<'' (drop 5 ''pandas>=1.0,<3'')
   \<and> default_import_name ''torch<2.0'' = ''torch''
   \<and> default_import_name ''spacy'' = ''spacy''"
  using check_and_install_package_import_name [of "''pandas>=1.0,<3''"]
  by (simp add: default_import_name_def)

subsection \<open>One capability: detection, acquisition, outcome\<close>

lemma check_and_install_package_satisfied:
  assumes "import_o E (case import_name of None \<Rightarrow> default_import_name p | Some n \<Rightarrow> n)
             (world s) = None"
  shows "check_and_install_package E p import_name s
         = (Ret True,
            s\<lparr>calls := calls s @ [Import (case import_name of
                                            None \<Rightarrow> default_import_name p | Some n \<Rightarrow> n)],
              out := out s @ [Line Ok (p @ '' already installed'')]\<rparr>)"
  using assms
  by (simp add: check_and_install_package_def prog_defs call_defs Let_def)

lemma nltk_data_loop_satisfied:
  assumes "nltk_find_o E path (world s) = None"
  shows "nltk_data_loop E ((package, path) # rest) s
         = nltk_data_loop E rest
             (s\<lparr>calls := calls s @ [NltkFind path],
                out := out s @ [Line Ok (''NLTK '' @ package @ '' already available'')]\<rparr>)"
  using assms
  by (simp add: prog_defs call_defs)

text \<open>
  Claim C6. Where the detection of a capability succeeds, no acquisition command is run
  for it and it is reported as already there. For a package: when the import succeeds,
  \<open>check_and_install_package\<close> returns \<^verbatim>\<open>True\<close>, its only call is the import, and it prints
  that the package is already installed. For an NLTK data package: when \<^verbatim>\<open>nltk.data.find\<close>
  succeeds, the loop goes on to the next package with that one probe logged, the line
  that the data is already available printed, and no download.
\<close>

theorem satisfied_capability_is_not_acquired:
  "(import_o E (case import_name of None \<Rightarrow> default_import_name p | Some n \<Rightarrow> n) (world s) = None
      \<longrightarrow> check_and_install_package E p import_name s
          = (Ret True,
             s\<lparr>calls := calls s @ [Import (case import_name of
                                             None \<Rightarrow> default_import_name p | Some n \<Rightarrow> n)],
               out := out s @ [Line Ok (p @ '' already installed'')]\<rparr>))
   \<and> (nltk_find_o E path (world s) = None
      \<longrightarrow> nltk_data_loop E ((package, path) # rest) s
          = nltk_data_loop E rest
              (s\<lparr>calls := calls s @ [NltkFind path],
                 out := out s @ [Line Ok (''NLTK '' @ package @ '' already available'')]\<rparr>))"
  using check_and_install_package_satisfied [where E = E and import_name = import_name and s = s]
    nltk_data_loop_satisfied [where E = E and path = path and s = s]
  by simp

theorem satisfied_capability_is_not_acquired_witness:
  "import_o (sim_env (3, 11) ''Linux'' (\<lambda>argv. 0) pip_provides) ''pandas''
     (world (start [''pandas'', ''vader_lexicon''])) = None
   \<and> check_and_install_package (sim_env (3, 11) ''Linux'' (\<lambda>argv. 0) pip_provides) ''pandas'' None
       (start [''pandas'', ''vader_lexicon''])
     = (Ret True,
        \<lparr>world = [''pandas'', ''vader_lexicon''],
         calls = [Import ''pandas''],
         out = [Line Ok ''pandas already installed'']\<rparr>)
   \<and> nltk_find_o (sim_env (3, 11) ''Linux'' (\<lambda>argv. 0) pip_provides) ''vader_lexicon''
       (world (start [''pandas'', ''vader_lexicon''])) = None
   \<and> nltk_data_loop (sim_env (3, 11) ''Linux'' (\<lambda>argv. 0) pip_provides)
       [(''vader_lexicon'', ''vader_lexicon'')] (start [''pandas'', ''vader_lexicon''])
     = (Ret (),
        \<lparr>world = [''pandas'', ''vader_lexicon''],
         calls = [NltkFind ''vader_lexicon''],
         out = [Line Ok ''NLTK vader_lexicon already available'']\<rparr>)"
  using satisfied_capability_is_not_acquired
    [where E = "sim_env (3, 11) ''Linux'' (\<lambda>argv. 0) pip_provides" and import_name = None
       and p = "''pandas''" and s = "start [''pandas'', ''vader_lexicon'']"
       and path = "''vader_lexicon''" and package = "''vader_lexicon''" and rest = "[]"]
  by (simp add: sim_env_simps start_def default_import_name_def prog_defs)

lemma check_and_install_package_exit_zero:
  assumes "import_o E (case import_name of None \<Rightarrow> default_import_name p | Some n \<Rightarrow> n)
             (world s) = Some ImportError"
      and "run_o E (pip_install_cmd (sys_executable E) p) None (world s) = (Inr (0, err), w')"
  shows "check_and_install_package E p import_name s
         = (Ret True,
            s\<lparr>world := w',
              calls := calls s @ [Import (case import_name of
                                            None \<Rightarrow> default_import_name p | Some n \<Rightarrow> n),
                                  Run (pip_install_cmd (sys_executable E) p) None False],
              out := out s @ [Line Ok (p @ '' installed successfully'')]\<rparr>)"
  using assms
  by (simp add: check_and_install_package_def prog_defs call_defs Let_def)

lemma install_extension_exit_zero:
  assumes "run_o E (install_extension_cmd c i) (Some 60) (world s) = (Inr (0, err), w')"
  shows "install_extension E c i nm s
         = (Ret True,
            s\<lparr>world := w',
              calls := calls s @ [Run (install_extension_cmd c i) (Some 60) True],
              out := out s @ [Line Ok (nm @ '' installed successfully'')]\<rparr>)"
  using assms
  by (simp add: install_extension_def prog_defs call_defs)

text \<open>
  Claim C2, as stated, fails: after an acquisition command that exits with status 0 the
  scripts do not run the detection again. On the simulated machine below the installer
  exits with status 0 and provides nothing; \<open>check_and_install_package\<close> imports once,
  installs, returns \<^verbatim>\<open>True\<close> and prints that the package was installed successfully, although
  the import still fails in the world it leaves.
\<close>

theorem unverified_success_counterexample:
  "check_and_install_package (sim_env (3, 11) ''Linux'' (\<lambda>argv. 0) (\<lambda>argv. []))
     ''scikit-learn'' None (start [])
   = (Ret True,
      \<lparr>world = [],
       calls = [Import ''scikit-learn'',
                Run [''python3'', ''-m'', ''pip'', ''install'', ''--upgrade'', ''scikit-learn'']
                  None False],
       out = [Line Ok ''scikit-learn installed successfully'']\<rparr>)
   \<and> import_o (sim_env (3, 11) ''Linux'' (\<lambda>argv. 0) (\<lambda>argv. [])) ''scikit-learn'' []
     = Some ImportError"
  by (simp add: check_and_install_package_def prog_defs call_defs Let_def sim_env_simps start_def
      default_import_name_def pip_install_cmd_def)

text \<open>
  Claim C2, amended. When the acquisition command exits with status 0, the outcome is
  success on the exit status alone. \<open>check_and_install_package\<close>, after a failed import
  and an installer that exits with 0, returns \<^verbatim>\<open>True\<close> and prints the success line; its
  calls are the one import and the installer, so the detection is not run again.
  \<open>install_extension\<close>, whose command exits with 0, returns \<^verbatim>\<open>True\<close> and prints the
  success line; its only call is that command.
\<close>

theorem exit_status_alone_decides_success:
  "(import_o E (case import_name of None \<Rightarrow> default_import_name p | Some n \<Rightarrow> n) (world s)
      = Some ImportError
    \<and> run_o E (pip_install_cmd (sys_executable E) p) None (world s) = (Inr (0, err), w')
      \<longrightarrow> check_and_install_package E p import_name s
          = (Ret True,
             s\<lparr>world := w',
               calls := calls s @ [Import (case import_name of
                                             None \<Rightarrow> default_import_name p | Some n \<Rightarrow> n),
                                   Run (pip_install_cmd (sys_executable E) p) None False],
               out := out s @ [Line Ok (p @ '' installed successfully'')]\<rparr>))
   \<and> (run_o E (install_extension_cmd c i) (Some 60) (world s) = (Inr (0, errx), wx)
      \<longrightarrow> install_extension E c i nm s
          = (Ret True,
             s\<lparr>world := wx,
               calls := calls s @ [Run (install_extension_cmd c i) (Some 60) True],
               out := out s @ [Line Ok (nm @ '' installed successfully'')]\<rparr>))"
  using check_and_install_package_exit_zero
      [where E = E and import_name = import_name and s = s and err = err and w' = w']
    install_extension_exit_zero [where E = E and s = s and err = errx and w' = wx]
  by simp

theorem exit_status_alone_decides_success_witness:
  "import_o (sim_env (3, 11) ''Linux'' (\<lambda>argv. 0) pip_provides) ''pandas'' (world (start []))
     = Some ImportError
   \<and> run_o (sim_env (3, 11) ''Linux'' (\<lambda>argv. 0) pip_provides)
       (pip_install_cmd ''python3'' ''pandas'') None (world (start []))
     = (Inr (0, []), [''pandas''])
   \<and> check_and_install_package (sim_env (3, 11) ''Linux'' (\<lambda>argv. 0) pip_provides) ''pandas'' None
       (start [])
     = (Ret True,
        \<lparr>world = [''pandas''],
         calls = [Import ''pandas'', Run (pip_install_cmd ''python3'' ''pandas'') None False],
         out = [Line Ok ''pandas installed successfully'']\<rparr>)
   \<and> run_o (sim_env (3, 11) ''Linux'' (\<lambda>argv. 0) pip_provides)
       (install_extension_cmd ''code'' ''ms-python.python'') (Some 60) (world (start []))
     = (Inr (0, []), [])
   \<and> install_extension (sim_env (3, 11) ''Linux'' (\<lambda>argv. 0) pip_provides) ''code''
       ''ms-python.python'' ''Python'' (start [])
     = (Ret True,
        \<lparr>world = [],
         calls = [Run (install_extension_cmd ''code'' ''ms-python.python'') (Some 60) True],
         out = [Line Ok ''Python installed successfully'']\<rparr>)"
  using exit_status_alone_decides_success
    [where E = "sim_env (3, 11) ''Linux'' (\<lambda>argv. 0) pip_provides" and import_name = None
       and p = "''pandas''" and s = "start []" and err = "[]" and w' = "[''pandas'']"
       and c = "''code''" and i = "''ms-python.python''" and errx = "[]" and wx = "[]"
       and nm = "''Python''"]
  by (simp add: sim_env_simps start_def default_import_name_def pip_provides_def
      pip_install_cmd_def install_extension_cmd_def)

lemma check_and_install_package_unsatisfied:
  assumes "import_o E (case import_name of None \<Rightarrow> default_import_name p | Some n \<Rightarrow> n)
             (world s) = Some ImportError"
  shows "calls (snd (check_and_install_package E p import_name s))
         = calls s @ [Import (case import_name of None \<Rightarrow> default_import_name p | Some n \<Rightarrow> n),
                      Run (pip_install_cmd (sys_executable E) p) None False]"
    and "run_o E (pip_install_cmd (sys_executable E) p) None (world s) = (Inr (rc, err), w')
         \<Longrightarrow> check_and_install_package E p import_name s
             = (Ret (rc = 0),
                s\<lparr>world := w',
                  calls := calls s @ [Import (case import_name of
                                                None \<Rightarrow> default_import_name p | Some n \<Rightarrow> n),
                                      Run (pip_install_cmd (sys_executable E) p) None False],
                  out := out s @ [if rc = 0 then Line Ok (p @ '' installed successfully'')
                                  else Line Fail (''Failed to install '' @ p)]\<rparr>)"
  using assms
  by (auto simp: check_and_install_package_def prog_defs call_defs Let_def
      split: prod.splits sum.splits)

lemma setup_geoparser_calls:
  "calls (snd (setup_geoparser E v s))
   = calls s @ [Run (geonames_download_cmd (get_venv_python E v)) None False]"
  by (auto simp: setup_geoparser_def prog_defs call_defs Let_def split: prod.splits sum.splits)

lemma install_extension_calls:
  "\<exists>b. fst (install_extension E c i nm s) = Ret b"
  "calls (snd (install_extension E c i nm s))
   = calls s @ [Run (install_extension_cmd c i) (Some 60) True]"
  by (auto simp: install_extension_def prog_defs call_defs split: prod.splits sum.splits)

lemma install_extension_exit_nonzero:
  assumes "run_o E (install_extension_cmd c i) (Some 60) (world s) = (Inr (rc, err), w')"
      and "rc \<noteq> 0"
  shows "install_extension E c i nm s
         = (Ret False,
            s\<lparr>world := w',
              calls := calls s @ [Run (install_extension_cmd c i) (Some 60) True],
              out := out s @ Line Fail (''Failed to install '' @ nm)
                       # (if err \<noteq> [] then [Line Plain (''Error: '' @ py_strip err)] else [])\<rparr>)"
  using assms
  by (simp add: install_extension_def prog_defs call_defs)

text \<open>
  Claim C5, as stated, fails: the package installer is started by
  \<^verbatim>\<open>subprocess.check_call\<close> with no timeout and nothing captured. On the simulated machine
  below the import of \<^verbatim>\<open>pandas\<close> fails and the installer exits with status 1 and the error
  text \<^verbatim>\<open>failed\<close>: the command is logged with timeout \<open>None\<close> and capture \<open>False\<close>, and the
  error text is nowhere in the output.
\<close>

theorem unbounded_acquisition_counterexample:
  "check_and_install_package (sim_env (3, 11) ''Linux'' (\<lambda>argv. 1) pip_provides)
     ''pandas'' None (start [])
   = (Ret False,
      \<lparr>world = [],
       calls = [Import ''pandas'',
                Run [''python3'', ''-m'', ''pip'', ''install'', ''--upgrade'', ''pandas''] None False],
       out = [Line Fail ''Failed to install pandas'']\<rparr>)
   \<and> run_o (sim_env (3, 11) ''Linux'' (\<lambda>argv. 1) pip_provides)
       [''python3'', ''-m'', ''pip'', ''install'', ''--upgrade'', ''pandas''] None []
     = (Inr (1, ''failed''), [])"
  by (simp add: check_and_install_package_def prog_defs call_defs Let_def sim_env_simps start_def
      default_import_name_def pip_install_cmd_def)

text \<open>
  Claim C5, amended. When the import of a package raises \<^verbatim>\<open>ImportError\<close>,
  \<open>check_and_install_package\<close> runs the installer exactly once, after the import, with no
  timeout and without capturing its output; of the result only whether the exit status is
  zero is used (it decides the returned value and the printed line). \<open>setup_geoparser\<close>
  runs its download command on every call, with no timeout and no capture. Only
  \<open>install_extension\<close> runs its command with a bounded timeout (60 seconds) and captures
  exit status and standard error: it always returns, and on a nonzero status it prints
  the stripped error text when there is one.
\<close>

theorem acquisition_command_as_issued:
  "(import_o E (case import_name of None \<Rightarrow> default_import_name p | Some n \<Rightarrow> n) (world s)
      = Some ImportError
    \<longrightarrow> calls (snd (check_and_install_package E p import_name s))
          = calls s @ [Import (case import_name of None \<Rightarrow> default_import_name p | Some n \<Rightarrow> n),
                       Run (pip_install_cmd (sys_executable E) p) None False]
        \<and> (run_o E (pip_install_cmd (sys_executable E) p) None (world s) = (Inr (rc, err), w')
           \<longrightarrow> check_and_install_package E p import_name s
               = (Ret (rc = 0),
                  s\<lparr>world := w',
                    calls := calls s @ [Import (case import_name of
                                                  None \<Rightarrow> default_import_name p | Some n \<Rightarrow> n),
                                        Run (pip_install_cmd (sys_executable E) p) None False],
                    out := out s @ [if rc = 0 then Line Ok (p @ '' installed successfully'')
                                    else Line Fail (''Failed to install '' @ p)]\<rparr>)))
   \<and> calls (snd (setup_geoparser E v s))
       = calls s @ [Run (geonames_download_cmd (get_venv_python E v)) None False]
   \<and> (\<exists>b. fst (install_extension E c i nm s) = Ret b)
   \<and> calls (snd (install_extension E c i nm s))
       = calls s @ [Run (install_extension_cmd c i) (Some 60) True]
   \<and> (run_o E (install_extension_cmd c i) (Some 60) (world s) = (Inr (rcx, errx), wx) \<and> rcx \<noteq> 0
      \<longrightarrow> install_extension E c i nm s
          = (Ret False,
             s\<lparr>world := wx,
               calls := calls s @ [Run (install_extension_cmd c i) (Some 60) True],
               out := out s @ Line Fail (''Failed to install '' @ nm)
                        # (if errx \<noteq> [] then [Line Plain (''Error: '' @ py_strip errx)] else [])\<rparr>))"
  using check_and_install_package_unsatisfied(1)
      [where E = E and import_name = import_name and s = s and p = p]
    check_and_install_package_unsatisfied(2)
      [where E = E and import_name = import_name and s = s and p = p and rc = rc and err = err
         and w' = w']
    setup_geoparser_calls [where E = E and s = s and v = v]
    install_extension_calls [where E = E and s = s and c = c and i = i and nm = nm]
    install_extension_exit_nonzero
      [where E = E and s = s and c = c and i = i and nm = nm and rc = rcx and err = errx
         and w' = wx]
  by simp

theorem acquisition_command_as_issued_witness:
  "import_o (sim_env (3, 11) ''Linux'' (\<lambda>argv. 2) pip_provides) ''pandas'' (world (start []))
     = Some ImportError
   \<and> run_o (sim_env (3, 11) ''Linux'' (\<lambda>argv. 2) pip_provides)
       (pip_install_cmd ''python3'' ''pandas'') None (world (start []))
     = (Inr (2, ''failed''), [])
   \<and> check_and_install_package (sim_env (3, 11) ''Linux'' (\<lambda>argv. 2) pip_provides) ''pandas''
       None (start [])
     = (Ret False,
        \<lparr>world = [],
         calls = [Import ''pandas'', Run (pip_install_cmd ''python3'' ''pandas'') None False],
         out = [Line Fail ''Failed to install pandas'']\<rparr>)
   \<and> run_o (sim_env (3, 11) ''Linux'' (\<lambda>argv. 2) pip_provides)
       (install_extension_cmd ''code'' ''ms-python.python'') (Some 60) (world (start []))
     = (Inr (2, ''failed''), [])
   \<and> install_extension (sim_env (3, 11) ''Linux'' (\<lambda>argv. 2) pip_provides) ''code''
       ''ms-python.python'' ''Python'' (start [])
     = (Ret False,
        \<lparr>world = [],
         calls = [Run (install_extension_cmd ''code'' ''ms-python.python'') (Some 60) True],
         out = [Line Fail ''Failed to install Python'', Line Plain ''Error: failed'']\<rparr>)"
  using acquisition_command_as_issued
    [where E = "sim_env (3, 11) ''Linux'' (\<lambda>argv. 2) pip_provides" and import_name = None
       and p = "''pandas''" and s = "start []" and rc = 2 and err = "''failed''" and w' = "[]"
       and c = "''code''" and i = "''ms-python.python''" and rcx = 2 and errx = "''failed''"
       and wx = "[]" and nm = "''Python''"]
  by (simp add: sim_env_simps start_def default_import_name_def pip_provides_def
      pip_install_cmd_def install_extension_cmd_def py_strip_def is_space_def)

subsection \<open>The virtual environment\<close>

lemma create_virtual_environment_returns:
  "\<exists>b. fst (create_virtual_environment E v s) = Ret b"
  by (auto simp: create_virtual_environment_def prog_defs call_defs
      split: prod.splits sum.splits option.splits)

lemma create_virtual_environment_deletes_first:
  assumes "exists_o E v (world s)"
  shows "\<exists>cs. calls (snd (create_virtual_environment E v s))
               = calls s @ PathExists v # RmTree v # cs
             \<and> (cs = [] \<or> cs = [VenvCreate v])"
  using assms
  by (auto simp: create_virtual_environment_def prog_defs call_defs
      split: prod.splits sum.splits option.splits)

lemma create_virtual_environment_success:
  assumes "fst (create_virtual_environment E v s) = Ret True"
  shows "calls (snd (create_virtual_environment E v s))
         = calls s @ PathExists v # (if exists_o E v (world s) then [RmTree v] else [])
             @ [VenvCreate v]"
    and "exists_o E v (world s) \<Longrightarrow> fst (rmtree_o E v (world s)) = None"
    and "venv_create_o E v
           (if exists_o E v (world s) then snd (rmtree_o E v (world s)) else world s)
         = (None, world (snd (create_virtual_environment E v s)))"
  using assms
  by (auto simp: create_virtual_environment_def prog_defs call_defs
      split: prod.splits sum.splits option.splits if_splits)

text \<open>
  Claim C10. \<open>create_virtual_environment\<close> never raises. When something exists at the
  path, its first action after the existence test is the recursive deletion of the path,
  and the creation can only follow it. When it returns \<^verbatim>\<open>True\<close>, its calls were the
  existence test, the deletion if the path existed, and the creation; the deletion (if any)
  and the creation did not raise, and the world it leaves is the one \<^verbatim>\<open>venv.create\<close> made
  from the world without the old directory: the environment is newly created, never reused.
\<close>

theorem create_virtual_environment_recreates:
  "(\<exists>b. fst (create_virtual_environment E v s) = Ret b)
   \<and> (exists_o E v (world s)
      \<longrightarrow> (\<exists>cs. calls (snd (create_virtual_environment E v s))
                 = calls s @ PathExists v # RmTree v # cs
               \<and> (cs = [] \<or> cs = [VenvCreate v])))
   \<and> (fst (create_virtual_environment E v s) = Ret True
      \<longrightarrow> calls (snd (create_virtual_environment E v s))
            = calls s @ PathExists v # (if exists_o E v (world s) then [RmTree v] else [])
                @ [VenvCreate v]
        \<and> (exists_o E v (world s) \<longrightarrow> fst (rmtree_o E v (world s)) = None)
        \<and> venv_create_o E v
             (if exists_o E v (world s) then snd (rmtree_o E v (world s)) else world s)
           = (None, world (snd (create_virtual_environment E v s))))"
  using create_virtual_environment_returns [where E = E and v = v and s = s]
    create_virtual_environment_deletes_first [where E = E and v = v and s = s]
    create_virtual_environment_success [where E = E and v = v and s = s]
  by blast

theorem create_virtual_environment_recreates_witness:
  "exists_o (sim_env (3, 11) ''Linux'' (\<lambda>argv. 0) pip_provides) ''/course/ds101_env''
     (world (start [''/course/ds101_env'', ''/course/ds101_env/old'']))
   \<and> create_virtual_environment (sim_env (3, 11) ''Linux'' (\<lambda>argv. 0) pip_provides)
       ''/course/ds101_env'' (start [''/course/ds101_env'', ''/course/ds101_env/old''])
     = (Ret True,
        \<lparr>world = [''/course/ds101_env''],
         calls = [PathExists ''/course/ds101_env'', RmTree ''/course/ds101_env'',
                  VenvCreate ''/course/ds101_env''],
         out = [Line Ok ''Virtual environment created successfully'']\<rparr>)
   \<and> rmtree_o (sim_env (3, 11) ''Linux'' (\<lambda>argv. 0) pip_provides) ''/course/ds101_env''
       [''/course/ds101_env'', ''/course/ds101_env/old'']
     = (None, [])"
  using create_virtual_environment_recreates
    [where E = "sim_env (3, 11) ''Linux'' (\<lambda>argv. 0) pip_provides"
       and v = "''/course/ds101_env''"
       and s = "start [''/course/ds101_env'', ''/course/ds101_env/old'']"]
  by (simp add: create_virtual_environment_def prog_defs call_defs sim_env_simps start_def)

subsection \<open>Rules for the log\<close>

named_theorems calls_only_intros

lemma calls_only_ret [calls_only_intros]: "calls_only P (ret x)"
  and calls_only_raise [calls_only_intros]: "calls_only P (raise e)"
  and calls_only_sys_exit [calls_only_intros]: "calls_only P (sys_exit n)"
  and calls_only_say [calls_only_intros]: "calls_only P (say m t)"
  and calls_only_say_exc [calls_only_intros]: "calls_only P (say_exc m t e)"
  by (simp_all add: calls_only_def prog_defs)

lemma calls_only_extcall [calls_only_intros]: "P c \<Longrightarrow> calls_only P (extcall c f)"
  by (auto simp: calls_only_def extcall_def split: prod.splits sum.splits)

lemma calls_only_bind [calls_only_intros]:
  assumes "calls_only P m" and "\<And>x. calls_only P (f x)"
  shows "calls_only P (bind m f)"
  unfolding calls_only_def
proof
  fix s
  obtain r s1 where ms: "m s = (r, s1)" by (cases "m s")
  from assms(1) ms obtain cs where cs: "calls s1 = calls s @ cs" "list_all P cs"
    unfolding calls_only_def by (metis snd_conv)
  show "\<exists>cs. calls (snd (bind m f s)) = calls s @ cs \<and> list_all P cs"
  proof (cases r)
    case (Ret x)
    from assms(2) [of x] obtain ds where "calls (snd (f x s1)) = calls s1 @ ds" "list_all P ds"
      unfolding calls_only_def by blast
    with cs ms Ret show ?thesis by (simp add: bind_def)
  next
    case (Raise e)
    with cs ms show ?thesis by (simp add: bind_def)
  next
    case (SysExit n)
    with cs ms show ?thesis by (simp add: bind_def)
  qed
qed

lemma calls_only_try_except [calls_only_intros]:
  assumes "calls_only P m" and "\<And>e. calls_only P (h e)"
  shows "calls_only P (try_except m c h)"
  unfolding calls_only_def
proof
  fix s
  obtain r s1 where ms: "m s = (r, s1)" by (cases "m s")
  from assms(1) ms obtain cs where cs: "calls s1 = calls s @ cs" "list_all P cs"
    unfolding calls_only_def by (metis snd_conv)
  show "\<exists>cs. calls (snd (try_except m c h s)) = calls s @ cs \<and> list_all P cs"
  proof (cases r)
    case (Ret x)
    with cs ms show ?thesis by (simp add: try_except_def)
  next
    case (Raise e)
    from assms(2) [of e] obtain ds where "calls (snd (h e s1)) = calls s1 @ ds" "list_all P ds"
      unfolding calls_only_def by blast
    with cs ms Raise show ?thesis by (simp add: try_except_def)
  next
    case (SysExit n)
    with cs ms show ?thesis by (simp add: try_except_def)
  qed
qed

lemma calls_only_if [calls_only_intros]:
  "(c \<Longrightarrow> calls_only P a) \<Longrightarrow> (\<not> c \<Longrightarrow> calls_only P b) \<Longrightarrow> calls_only P (if c then a else b)"
  by simp

lemma calls_only_case_prod [calls_only_intros]:
  "(\<And>a b. calls_only P (f a b)) \<Longrightarrow> calls_only P (case x of (a, b) \<Rightarrow> f a b)"
  by (cases x) simp

lemma calls_only_case_option [calls_only_intros]:
  "calls_only P a \<Longrightarrow> (\<And>y. calls_only P (f y)) \<Longrightarrow> calls_only P (case x of None \<Rightarrow> a | Some y \<Rightarrow> f y)"
  by (cases x) simp_all

lemma calls_only_check_call [calls_only_intros]:
  "P (Run argv None False) \<Longrightarrow> calls_only P (check_call E argv)"
  unfolding check_call_def subprocess_run_def
  by (intro calls_only_intros) simp_all

lemma calls_onlyD:
  "calls_only P m \<Longrightarrow> \<exists>cs. calls (snd (m s)) = calls s @ cs \<and> list_all P cs"
  by (simp add: calls_only_def)

subsection \<open>Running again\<close>

lemma ir_core_loop_satisfied:
  assumes "\<forall>p \<in> set packages. p \<notin> set essential
             \<longrightarrow> import_o E (default_import_name p) (world s) = None"
  shows "ir_core_loop E essential packages failed s
         = (Ret failed,
            s\<lparr>calls := calls s @ map (\<lambda>p. Import (default_import_name p))
                                   (filter (\<lambda>p. p \<notin> set essential) packages),
              out := out s @ map (\<lambda>p. Line Ok (p @ '' already installed''))
                               (filter (\<lambda>p. p \<notin> set essential) packages)\<rparr>)"
  using assms
proof (induction packages arbitrary: s)
  case Nil
  show ?case by (simp add: ret_def)
next
  case (Cons p ps)
  show ?case
  proof (cases "p \<in> set essential")
    case True
    with Cons show ?thesis by simp
  next
    case False
    let ?s1 = "s\<lparr>calls := calls s @ [Import (default_import_name p)],
                  out := out s @ [Line Ok (p @ '' already installed'')]\<rparr>"
    have step: "check_and_install_package E p None s = (Ret True, ?s1)"
      using Cons.prems False
      by (simp add: check_and_install_package_satisfied [where import_name = None, simplified])
    have "\<forall>q \<in> set ps. q \<notin> set essential
            \<longrightarrow> import_o E (default_import_name q) (world ?s1) = None"
      using Cons.prems by simp
    then have "ir_core_loop E essential ps failed ?s1
               = (Ret failed,
                  ?s1\<lparr>calls := calls ?s1 @ map (\<lambda>p. Import (default_import_name p))
                                           (filter (\<lambda>p. p \<notin> set essential) ps),
                      out := out ?s1 @ map (\<lambda>p. Line Ok (p @ '' already installed''))
                                       (filter (\<lambda>p. p \<notin> set essential) ps)\<rparr>)"
      by (rule Cons.IH)
    with step False show ?thesis by (simp add: bind_def)
  qed
qed

lemma sp_spacy_loop_calls_only: "calls_only (\<lambda>c. True) (sp_spacy_loop E python ms)"
  by (induction ms) (auto intro!: calls_only_intros)

lemma sp_spacy_loop_downloads:
  "\<exists>cs. calls (snd (sp_spacy_loop E python (m # ms) s))
        = calls s @ Run (spacy_download_cmd python m) None False # cs"
proof -
  let ?item = "try_except
             (bind (check_call E (spacy_download_cmd python m)) (\<lambda>_.
              say Ok (''spaCy model '' @ m @ '' downloaded successfully'')))
             (\<lambda>e. e = CalledProcessError)
             (\<lambda>_. say Warn (''Failed to download spaCy model '' @ m
                     @ '' - you can install it later''))"
  obtain r s1 where s1: "?item s = (r, s1)" by (cases "?item s")
  then have c1: "calls s1 = calls s @ [Run (spacy_download_cmd python m) None False]"
    by (auto simp: prog_defs call_defs split: prod.splits sum.splits if_splits)
  obtain cs where "calls (snd (sp_spacy_loop E python ms s1)) = calls s1 @ cs"
    using calls_onlyD [OF sp_spacy_loop_calls_only] by blast
  with c1 s1 show ?thesis
    by (cases r) (simp_all add: bind_def)
qed

text \<open>
  Claim C4, as stated, fails for \<^verbatim>\<open>setup_python_environment.py\<close>: its steps do not detect
  what is there. On the simulated machine, a first \<open>create_virtual_environment\<close> creates
  the environment; a second one, started in the world the first one left, deletes it and
  creates it again. \<open>sp_check_and_download_spacy_model\<close> in that world runs both
  download commands and leaves the world as it was, so every further run does the same.
\<close>

theorem second_run_acquires_again_counterexample:
  "create_virtual_environment (sim_env (3, 11) ''Linux'' (\<lambda>argv. 0) pip_provides)
     ''/course/ds101_env'' (start [])
   = (Ret True,
      \<lparr>world = [''/course/ds101_env''],
       calls = [PathExists ''/course/ds101_env'', VenvCreate ''/course/ds101_env''],
       out = [Line Ok ''Virtual environment created successfully'']\<rparr>)
   \<and> create_virtual_environment (sim_env (3, 11) ''Linux'' (\<lambda>argv. 0) pip_provides)
       ''/course/ds101_env'' (start [''/course/ds101_env''])
     = (Ret True,
        \<lparr>world = [''/course/ds101_env''],
         calls = [PathExists ''/course/ds101_env'', RmTree ''/course/ds101_env'',
                  VenvCreate ''/course/ds101_env''],
         out = [Line Ok ''Virtual environment created successfully'']\<rparr>)
   \<and> sp_check_and_download_spacy_model (sim_env (3, 11) ''Linux'' (\<lambda>argv. 0) pip_provides)
       ''/course/ds101_env'' (start [''/course/ds101_env''])
     = (Ret (),
        \<lparr>world = [''/course/ds101_env''],
         calls = [Run [''/course/ds101_env/bin/python'', ''-m'', ''spacy'', ''download'',
                       ''en_core_web_sm''] None False,
                  Run [''/course/ds101_env/bin/python'', ''-m'', ''spacy'', ''download'',
                       ''en_core_web_md''] None False],
         out = [Line Ok ''spaCy model en_core_web_sm downloaded successfully'',
                Line Ok ''spaCy model en_core_web_md downloaded successfully'']\<rparr>)"
  by (simp add: create_virtual_environment_def sp_check_and_download_spacy_model_def
      get_venv_python_def spacy_download_cmd_def prog_defs call_defs sim_env_simps start_def
      pip_provides_def Let_def)

text \<open>
  Claim C4, amended. The package loop of \<^verbatim>\<open>installs_required.py\<close> is idempotent: in a
  state where the import of every package of the list (outside the essential ones, which
  the loop skips) succeeds, the loop issues no command at all, only the import probes, one
  per package in order; it reports each package as already installed, returns the list of
  failures unchanged and leaves the world as it was. \<^verbatim>\<open>setup_python_environment.py\<close> is
  not: its spaCy loop issues the download command of its first model whatever the state,
  and \<open>create_virtual_environment\<close> deletes the environment that exists.
\<close>

theorem second_run_of_satisfied_packages:
  "((\<forall>p \<in> set packages. p \<notin> set essential
        \<longrightarrow> import_o E (default_import_name p) (world s) = None)
      \<longrightarrow> ir_core_loop E essential packages failed s
          = (Ret failed,
             s\<lparr>calls := calls s @ map (\<lambda>p. Import (default_import_name p))
                                    (filter (\<lambda>p. p \<notin> set essential) packages),
               out := out s @ map (\<lambda>p. Line Ok (p @ '' already installed''))
                                (filter (\<lambda>p. p \<notin> set essential) packages)\<rparr>))
   \<and> (\<exists>cs. calls (snd (sp_spacy_loop E python (m # ms) s))
            = calls s @ Run (spacy_download_cmd python m) None False # cs)
   \<and> (exists_o E v (world s)
      \<longrightarrow> (\<exists>cs. calls (snd (create_virtual_environment E v s))
                 = calls s @ PathExists v # RmTree v # cs))"
  using ir_core_loop_satisfied
      [where E = E and packages = packages and essential = essential and s = s
         and failed = failed]
    sp_spacy_loop_downloads [where E = E and python = python and m = m and ms = ms and s = s]
    create_virtual_environment_deletes_first [where E = E and v = v and s = s]
  by blast

theorem second_run_of_satisfied_packages_witness:
  "ir_core_loop (sim_env (3, 11) ''Linux'' (\<lambda>argv. 0) pip_provides) [''jupyterlab'']
     [''jupyterlab'', ''pandas'', ''tqdm''] [] (start [])
   = (Ret [],
      \<lparr>world = [''tqdm'', ''pandas''],
       calls = [Import ''pandas'', Run (pip_install_cmd ''python3'' ''pandas'') None False,
                Import ''tqdm'', Run (pip_install_cmd ''python3'' ''tqdm'') None False],
       out = [Line Ok ''pandas installed successfully'',
              Line Ok ''tqdm installed successfully'']\<rparr>)
   \<and> import_o (sim_env (3, 11) ''Linux'' (\<lambda>argv. 0) pip_provides)
       (default_import_name ''pandas'') (world (start [''tqdm'', ''pandas''])) = None
   \<and> import_o (sim_env (3, 11) ''Linux'' (\<lambda>argv. 0) pip_provides)
       (default_import_name ''tqdm'') (world (start [''tqdm'', ''pandas''])) = None
   \<and> ir_core_loop (sim_env (3, 11) ''Linux'' (\<lambda>argv. 0) pip_provides) [''jupyterlab'']
       [''jupyterlab'', ''pandas'', ''tqdm''] [] (start [''tqdm'', ''pandas''])
     = (Ret [],
        \<lparr>world = [''tqdm'', ''pandas''],
         calls = [Import ''pandas'', Import ''tqdm''],
         out = [Line Ok ''pandas already installed'', Line Ok ''tqdm already installed'']\<rparr>)
   \<and> exists_o (sim_env (3, 11) ''Linux'' (\<lambda>argv. 0) pip_provides) ''/course/ds101_env''
       (world (start [''/course/ds101_env'']))"
  using second_run_of_satisfied_packages
    [where E = "sim_env (3, 11) ''Linux'' (\<lambda>argv. 0) pip_provides"
       and essential = "[''jupyterlab'']" and packages = "[''jupyterlab'', ''pandas'', ''tqdm'']"
       and failed = "[]" and s = "start [''tqdm'', ''pandas'']"]
    second_run_of_satisfied_packages
    [where E = "sim_env (3, 11) ''Linux'' (\<lambda>argv. 0) pip_provides"
       and v = "''/course/ds101_env''" and s = "start [''/course/ds101_env'']"]
  by (simp add: check_and_install_package_def prog_defs call_defs sim_env_simps start_def
      default_import_name_def pip_provides_def pip_install_cmd_def Let_def)

subsection \<open>The editor settings\<close>

lemma map_of_dict_set: "map_of (dict_set d k v) = (map_of d)(k \<mapsto> v)"
  by (induction d) auto

lemma map_of_dict_update_other:
  "k \<notin> fst ` set other \<Longrightarrow> map_of (dict_update d other) k = map_of d k"
  by (induction other arbitrary: d) (auto simp: map_of_dict_set)

lemma new_settings_keys:
  "fst ` set (new_settings p)
   = {''python.pythonPath'', ''python.defaultInterpreterPath'', ''jupyter.kernels.filter''}"
  by (simp add: new_settings_def)

lemma map_of_dict_update_new_settings:
  "map_of (dict_update d (new_settings p)) ''python.pythonPath'' = Some (JStr p)"
  "map_of (dict_update d (new_settings p)) ''python.defaultInterpreterPath'' = Some (JStr p)"
  "map_of (dict_update d (new_settings p)) ''jupyter.kernels.filter''
   = Some (JList [JDict [(''path'', JStr p), (''type'', JStr ''pythonEnvironment'')]])"
  by (simp_all add: new_settings_def map_of_dict_set)

lemma create_vscode_settings_success:
  assumes ok: "create_vscode_settings E venv ws s = (Ret True, s')"
  shows "\<exists>written.
           calls s' = calls s
             @ MakeDirs (path_join E [ws, ''.vscode''])
             # PathExists (path_join E [path_join E [ws, ''.vscode''], ''settings.json''])
             # (if exists_o E (path_join E [path_join E [ws, ''.vscode''], ''settings.json''])
                     (snd (makedirs_o E (path_join E [ws, ''.vscode'']) (world s)))
                then [LoadJson (path_join E [path_join E [ws, ''.vscode''], ''settings.json''])]
                else [])
             @ [DumpJson (path_join E [path_join E [ws, ''.vscode''], ''settings.json''])
                  (JDict written)]
         \<and> dump_json_o E (path_join E [path_join E [ws, ''.vscode''], ''settings.json''])
             (JDict written) (snd (makedirs_o E (path_join E [ws, ''.vscode'']) (world s)))
           = (None, world s')
         \<and> (if exists_o E (path_join E [path_join E [ws, ''.vscode''], ''settings.json''])
                 (snd (makedirs_o E (path_join E [ws, ''.vscode'']) (world s)))
            then \<exists>old. load_json_o E (path_join E [path_join E [ws, ''.vscode''], ''settings.json''])
                         (snd (makedirs_o E (path_join E [ws, ''.vscode'']) (world s)))
                       = Inr (JDict old)
                     \<and> written = dict_update old (new_settings (abspath E (get_venv_python E venv)))
            else written = new_settings (abspath E (get_venv_python E venv)))"
proof -
  let ?vd = "path_join E [ws, ''.vscode'']"
  let ?sf = "path_join E [?vd, ''settings.json'']"
  let ?new = "new_settings (abspath E (get_venv_python E venv))"
  note defs = create_vscode_settings_def prog_defs call_defs Let_def
  obtain r0 w1 where mk: "makedirs_o E ?vd (world s) = (r0, w1)"
    by (cases "makedirs_o E ?vd (world s)")
  have r0: "r0 = None"
    using ok mk by (cases r0) (simp_all add: defs)
  show ?thesis
  proof (cases "exists_o E ?sf w1")
    case False
    obtain r2 w2 where dump: "dump_json_o E ?sf (JDict ?new) w1 = (r2, w2)"
      by (cases "dump_json_o E ?sf (JDict ?new) w1")
    have r2: "r2 = None"
      using ok mk r0 False dump by (cases r2) (simp_all add: defs)
    from ok mk r0 False dump r2 show ?thesis
      by (auto simp: defs)
  next
    case True
    show ?thesis
    proof (cases "load_json_o E ?sf w1")
      case (Inl e)
      with ok mk r0 True show ?thesis by (simp add: defs)
    next
      case (Inr j)
      show ?thesis
      proof (cases j)
        case (JDict old)
        obtain r2 w2 where
          dump: "dump_json_o E ?sf (JDict (dict_update old ?new)) w1 = (r2, w2)"
          by (cases "dump_json_o E ?sf (JDict (dict_update old ?new)) w1")
        have r2: "r2 = None"
          using ok mk r0 True Inr JDict dump by (cases r2) (simp_all add: defs)
        from ok mk r0 True Inr JDict dump r2 show ?thesis
          by (auto simp: defs)
      qed (use ok mk r0 True Inr in \<open>simp_all add: defs\<close>)
    qed
  qed
qed

text \<open>
  Claim C8. When \<open>create_vscode_settings\<close> returns \<^verbatim>\<open>True\<close>, its last call wrote a JSON
  object to \<^verbatim>\<open>.vscode/settings.json\<close> under the workspace, and the write did not raise. In
  that object both interpreter-path settings are the absolute path of the interpreter of
  the environment, and the kernel filter names the same path. If the settings file was
  there, it held a JSON object, the object written is that one updated with the three new
  settings, and every key other than these three has in it the value it had before. If
  the file was not there, the object written is the three new settings.
\<close>

theorem create_vscode_settings_merges:
  "create_vscode_settings E venv ws s = (Ret True, s')
   \<longrightarrow> (\<exists>written.
          last (calls s')
            = DumpJson (path_join E [path_join E [ws, ''.vscode''], ''settings.json''])
                (JDict written)
        \<and> dump_json_o E (path_join E [path_join E [ws, ''.vscode''], ''settings.json''])
             (JDict written) (snd (makedirs_o E (path_join E [ws, ''.vscode'']) (world s)))
           = (None, world s')
        \<and> map_of written ''python.pythonPath''
            = Some (JStr (abspath E (get_venv_python E venv)))
        \<and> map_of written ''python.defaultInterpreterPath''
            = Some (JStr (abspath E (get_venv_python E venv)))
        \<and> map_of written ''jupyter.kernels.filter''
            = Some (JList [JDict [(''path'', JStr (abspath E (get_venv_python E venv))),
                                  (''type'', JStr ''pythonEnvironment'')]])
        \<and> (if exists_o E (path_join E [path_join E [ws, ''.vscode''], ''settings.json''])
                (snd (makedirs_o E (path_join E [ws, ''.vscode'']) (world s)))
           then \<exists>old. load_json_o E (path_join E [path_join E [ws, ''.vscode''], ''settings.json''])
                        (snd (makedirs_o E (path_join E [ws, ''.vscode'']) (world s)))
                      = Inr (JDict old)
                    \<and> written = dict_update old (new_settings (abspath E (get_venv_python E venv)))
                    \<and> (\<forall>k. k \<notin> {''python.pythonPath'', ''python.defaultInterpreterPath'',
                                  ''jupyter.kernels.filter''}
                           \<longrightarrow> map_of written k = map_of old k)
           else written = new_settings (abspath E (get_venv_python E venv))))"
proof
  assume ok: "create_vscode_settings E venv ws s = (Ret True, s')"
  let ?sf = "path_join E [path_join E [ws, ''.vscode''], ''settings.json'']"
  let ?w1 = "snd (makedirs_o E (path_join E [ws, ''.vscode'']) (world s))"
  let ?new = "new_settings (abspath E (get_venv_python E venv))"
  from create_vscode_settings_success [OF ok] obtain written where
    c: "last (calls s') = DumpJson ?sf (JDict written)"
    and d: "dump_json_o E ?sf (JDict written) ?w1 = (None, world s')"
    and w: "if exists_o E ?sf ?w1
            then \<exists>old. load_json_o E ?sf ?w1 = Inr (JDict old) \<and> written = dict_update old ?new
            else written = ?new"
    by auto
  have vals: "map_of written ''python.pythonPath''
                = Some (JStr (abspath E (get_venv_python E venv)))
            \<and> map_of written ''python.defaultInterpreterPath''
                = Some (JStr (abspath E (get_venv_python E venv)))
            \<and> map_of written ''jupyter.kernels.filter''
                = Some (JList [JDict [(''path'', JStr (abspath E (get_venv_python E venv))),
                                      (''type'', JStr ''pythonEnvironment'')]])"
  proof (cases "exists_o E ?sf ?w1")
    case True
    with w obtain old where "written = dict_update old ?new" by auto
    then show ?thesis by (simp add: map_of_dict_update_new_settings)
  next
    case False
    with w have "written = ?new" by simp
    then show ?thesis by (simp add: new_settings_def)
  qed
  have frame: "map_of (dict_update old ?new) k = map_of old k"
    if "k \<notin> {''python.pythonPath'', ''python.defaultInterpreterPath'', ''jupyter.kernels.filter''}"
    for old k
    using that by (intro map_of_dict_update_other) (simp only: new_settings_keys, simp)
  from c d vals w frame show "\<exists>written.
          last (calls s') = DumpJson ?sf (JDict written)
        \<and> dump_json_o E ?sf (JDict written) ?w1 = (None, world s')
        \<and> map_of written ''python.pythonPath''
            = Some (JStr (abspath E (get_venv_python E venv)))
        \<and> map_of written ''python.defaultInterpreterPath''
            = Some (JStr (abspath E (get_venv_python E venv)))
        \<and> map_of written ''jupyter.kernels.filter''
            = Some (JList [JDict [(''path'', JStr (abspath E (get_venv_python E venv))),
                                  (''type'', JStr ''pythonEnvironment'')]])
        \<and> (if exists_o E ?sf ?w1
           then \<exists>old. load_json_o E ?sf ?w1 = Inr (JDict old)
                    \<and> written = dict_update old ?new
                    \<and> (\<forall>k. k \<notin> {''python.pythonPath'', ''python.defaultInterpreterPath'',
                                  ''jupyter.kernels.filter''}
                           \<longrightarrow> map_of written k = map_of old k)
           else written = ?new)"
    by (intro exI [of _ written]) (auto split: if_splits)
qed

theorem create_vscode_settings_merges_witness:
  "create_vscode_settings
     (sim_env_json (JDict [(''editor.fontSize'', JNum 14),
                           (''python.pythonPath'', JStr ''/usr/bin/python'')]))
     ''/course/ds101_env'' ''/course'' (start [''/course/.vscode/settings.json''])
   = (Ret True,
      \<lparr>world = [''/course/.vscode/settings.json'', ''/course/.vscode'',
                ''/course/.vscode/settings.json''],
       calls = [MakeDirs ''/course/.vscode'',
                PathExists ''/course/.vscode/settings.json'',
                LoadJson ''/course/.vscode/settings.json'',
                DumpJson ''/course/.vscode/settings.json''
                  (JDict [(''editor.fontSize'', JNum 14),
                          (''python.pythonPath'', JStr ''/course/ds101_env/bin/python''),
                          (''python.defaultInterpreterPath'', JStr ''/course/ds101_env/bin/python''),
                          (''jupyter.kernels.filter'',
                             JList [JDict [(''path'', JStr ''/course/ds101_env/bin/python''),
                                           (''type'', JStr ''pythonEnvironment'')]])])],
       out = [Line Ok ''VS Code settings created at: /course/.vscode/settings.json'']\<rparr>)"
proof -
  have run: ?thesis
    by (simp add: create_vscode_settings_def prog_defs call_defs Let_def sim_env_json_def
        sim_env_simps start_def get_venv_python_def new_settings_def)
  from create_vscode_settings_merges [THEN mp, OF run] show ?thesis
    by (simp only: run)
qed

subsection \<open>Rules for leaving through \<^verbatim>\<open>sys.exit\<close>\<close>

named_theorems no_exit_intros

lemma no_exit_ret [no_exit_intros]: "no_exit (ret x)"
  and no_exit_raise [no_exit_intros]: "no_exit (raise e)"
  and no_exit_say [no_exit_intros]: "no_exit (say m t)"
  and no_exit_say_exc [no_exit_intros]: "no_exit (say_exc m t e)"
  by (simp_all add: no_exit_def prog_defs)

lemma no_exit_extcall [no_exit_intros]: "no_exit (extcall c f)"
  by (auto simp: no_exit_def extcall_def split: prod.splits sum.splits)

lemma no_exit_bind [no_exit_intros]:
  assumes "no_exit m" and "\<And>x. no_exit (f x)"
  shows "no_exit (bind m f)"
  unfolding no_exit_def
proof (intro allI)
  fix s n
  obtain r s1 where ms: "m s = (r, s1)" by (cases "m s")
  with assms(1) have "r \<noteq> SysExit k" for k
    unfolding no_exit_def by (metis fst_conv)
  with ms assms(2) show "fst (bind m f s) \<noteq> SysExit n"
    by (cases r) (auto simp: bind_def no_exit_def)
qed

lemma no_exit_try_except [no_exit_intros]:
  assumes "no_exit m" and "\<And>e. no_exit (h e)"
  shows "no_exit (try_except m c h)"
  unfolding no_exit_def
proof (intro allI)
  fix s n
  obtain r s1 where ms: "m s = (r, s1)" by (cases "m s")
  with assms(1) have "r \<noteq> SysExit k" for k
    unfolding no_exit_def by (metis fst_conv)
  with ms assms(2) show "fst (try_except m c h s) \<noteq> SysExit n"
    by (cases r) (auto simp: try_except_def no_exit_def)
qed

lemma no_exit_if [no_exit_intros]:
  "(c \<Longrightarrow> no_exit a) \<Longrightarrow> (\<not> c \<Longrightarrow> no_exit b) \<Longrightarrow> no_exit (if c then a else b)"
  by simp

lemma no_exit_case_prod [no_exit_intros]:
  "(\<And>a b. no_exit (f a b)) \<Longrightarrow> no_exit (case x of (a, b) \<Rightarrow> f a b)"
  by (cases x) simp

lemma no_exit_case_option [no_exit_intros]:
  "no_exit a \<Longrightarrow> (\<And>y. no_exit (f y)) \<Longrightarrow> no_exit (case x of None \<Rightarrow> a | Some y \<Rightarrow> f y)"
  by (cases x) simp_all

lemma no_exit_calls [no_exit_intros]:
  "no_exit (py_import E name)"
  "no_exit (subprocess_run E argv t capture)"
  "no_exit (check_call E argv)"
  "no_exit (nltk_find E path)"
  "no_exit (nltk_download E package)"
  "no_exit (spacy_load E model)"
  "no_exit (path_exists E path)"
  "no_exit (path_getsize E path)"
  "no_exit (geoparser_new E)"
  "no_exit (shutil_rmtree E path)"
  "no_exit (venv_create E path)"
  "no_exit (os_makedirs E path)"
  "no_exit (json_load E path)"
  "no_exit (json_dump E path v)"
  "no_exit (shutil_which E cmd)"
  unfolding call_defs by (intro no_exit_intros)+

lemma no_exitD: "no_exit m \<Longrightarrow> fst (m s) \<noteq> SysExit n"
  by (simp add: no_exit_def)

lemma calls_only_calls [calls_only_intros]:
  "P (Run argv t capture) \<Longrightarrow> calls_only P (subprocess_run E argv t capture)"
  "P (Which cmd) \<Longrightarrow> calls_only P (shutil_which E cmd)"
  "P (PathExists path) \<Longrightarrow> calls_only P (path_exists E path)"
  unfolding call_defs by (intro calls_only_intros; assumption)+

subsection \<open>Prerequisite checks\<close>

lemma check_python_version_too_old:
  assumes "version_lt (version_info E) min_version"
  shows "\<exists>t. check_python_version E s = (Ret False, s\<lparr>out := out s @ [Line Fail t]\<rparr>)"
  using assms by (simp add: check_python_version_def prog_defs Let_def) (rule exI, rule refl)

lemma check_python_version_compatible:
  assumes "\<not> version_lt (version_info E) min_version"
  shows "\<exists>t. check_python_version E s = (Ret True, s\<lparr>out := out s @ [Line Ok t]\<rparr>)"
  using assms by (simp add: check_python_version_def prog_defs Let_def) (rule exI, rule refl)

lemma ir_main_too_old:
  assumes "version_lt (version_info E) min_version"
  shows "fst (ir_main E s) = SysExit 1 \<and> calls (snd (ir_main E s)) = calls s
         \<and> world (snd (ir_main E s)) = world s"
proof -
  from check_python_version_too_old [OF assms] obtain t where
    "check_python_version E s = (Ret False, s\<lparr>out := out s @ [Line Fail t]\<rparr>)" by blast
  then show ?thesis by (simp add: ir_main_def bind_def say_def sys_exit_def)
qed

lemma sp_main_too_old:
  assumes "version_lt (version_info E) min_version"
  shows "fst (sp_main E script s) = SysExit 1 \<and> calls (snd (sp_main E script s)) = calls s
         \<and> world (snd (sp_main E script s)) = world s"
proof -
  from check_python_version_too_old [OF assms] obtain t where
    "check_python_version E s = (Ret False, s\<lparr>out := out s @ [Line Fail t]\<rparr>)" by blast
  then show ?thesis by (simp add: sp_main_def bind_def say_def sys_exit_def)
qed

lemma vs_command_loop_probes: "calls_only is_probe (vs_command_loop E cmds)"
  by (induction cmds) (auto intro!: calls_only_intros)

lemma vs_path_loop_probes: "calls_only is_probe (vs_path_loop E paths)"
  by (induction paths) (auto intro!: calls_only_intros)

lemma check_vscode_installed_probes: "calls_only is_probe (check_vscode_installed E)"
  unfolding check_vscode_installed_def Let_def
  by (auto intro!: calls_only_intros vs_command_loop_probes vs_path_loop_probes)

lemma vs_main_not_found:
  assumes "check_vscode_installed E s = (Ret None, s')"
  shows "vs_main E s = (SysExit 1, s')"
  using assms by (simp add: vs_main_def bind_def sys_exit_def)

lemma str_nat_examples:
  "str_nat 3 = ''3''" "str_nat 7 = ''7''" "str_nat 8 = ''8''" "str_nat 11 = ''11''"
  "str_nat 1 = ''1''" "str_nat 2 = ''2''"
  by (simp_all add: str_nat.simps digit_char_def)

text \<open>
  Claim C7. When the interpreter version is below 3.8, \<^verbatim>\<open>main\<close> of
  \<^verbatim>\<open>installs_required.py\<close> and of \<^verbatim>\<open>setup_python_environment.py\<close> leave through
  \<^verbatim>\<open>sys.exit(1)\<close> without a single call into the machine: the log and the world are as
  they were. In \<^verbatim>\<open>install_vscode_extensions.py\<close> the search for the editor only probes
  (search path, existence of a path, \<^verbatim>\<open>--version\<close>), whatever it finds; and when it
  finds no editor, \<^verbatim>\<open>main\<close> leaves through \<^verbatim>\<open>sys.exit(1)\<close> in the state the search left, so
  that no installation command was ever issued.
\<close>

theorem prerequisite_failure_exits_before_acquisition:
  "(version_lt (version_info E) min_version
      \<longrightarrow> fst (ir_main E s) = SysExit 1
        \<and> calls (snd (ir_main E s)) = calls s
        \<and> world (snd (ir_main E s)) = world s
        \<and> fst (sp_main E script s) = SysExit 1
        \<and> calls (snd (sp_main E script s)) = calls s
        \<and> world (snd (sp_main E script s)) = world s)
   \<and> (\<exists>cs. calls (snd (check_vscode_installed E s)) = calls s @ cs \<and> list_all is_probe cs)
   \<and> (check_vscode_installed E s = (Ret None, s') \<longrightarrow> vs_main E s = (SysExit 1, s'))"
  using ir_main_too_old [where E = E and s = s]
    sp_main_too_old [where E = E and s = s and script = script]
    calls_onlyD [OF check_vscode_installed_probes [where E = E], where s = s]
    vs_main_not_found [where E = E and s = s and s' = s']
  by blast

theorem prerequisite_failure_exits_before_acquisition_witness:
  "version_lt (version_info (sim_env (3, 7) ''Linux'' (\<lambda>argv. 1) pip_provides)) min_version
   \<and> ir_main (sim_env (3, 7) ''Linux'' (\<lambda>argv. 1) pip_provides) (start [''code''])
     = (SysExit 1,
        \<lparr>world = [''code''], calls = [],
         out = [Line Fail ''Python 3.8+ is required, but you have 3.7'',
                Line Fail ''Installation aborted due to incompatible Python version.'']\<rparr>)
   \<and> sp_main (sim_env (3, 7) ''Linux'' (\<lambda>argv. 1) pip_provides) ''import nltk'' (start [''code''])
     = (SysExit 1,
        \<lparr>world = [''code''], calls = [],
         out = [Line Fail ''Python 3.8+ is required, but you have 3.7'',
                Line Fail ''Setup aborted due to incompatible Python version.'']\<rparr>)
   \<and> check_vscode_installed (sim_env (3, 7) ''Linux'' (\<lambda>argv. 1) pip_provides) (start [''code''])
     = (Ret None,
        \<lparr>world = [''code''],
         calls = [Which ''code'', Run [''code'', ''--version''] (Some 10) True,
                  Which ''code-insiders''],
         out = [Line Warn ''Found code but it's not working properly'',
                Line Fail ''Visual Studio Code not found or not working'']\<rparr>)
   \<and> vs_main (sim_env (3, 7) ''Linux'' (\<lambda>argv. 1) pip_provides) (start [''code''])
     = (SysExit 1,
        \<lparr>world = [''code''],
         calls = [Which ''code'', Run [''code'', ''--version''] (Some 10) True,
                  Which ''code-insiders''],
         out = [Line Warn ''Found code but it's not working properly'',
                Line Fail ''Visual Studio Code not found or not working'']\<rparr>)"
proof -
  let ?E = "sim_env (3, 7) ''Linux'' (\<lambda>argv. 1) pip_provides"
  have old: "version_lt (version_info ?E) min_version"
    by (simp add: sim_env_simps version_lt_def min_version_def)
  have check: "check_vscode_installed ?E (start [''code''])
     = (Ret None,
        \<lparr>world = [''code''],
         calls = [Which ''code'', Run [''code'', ''--version''] (Some 10) True,
                  Which ''code-insiders''],
         out = [Line Warn ''Found code but it's not working properly'',
                Line Fail ''Visual Studio Code not found or not working'']\<rparr>)"
    by (simp add: check_vscode_installed_def prog_defs call_defs Let_def sim_env_simps start_def
        probe_catches_def)
  have mains: "ir_main ?E (start [''code''])
     = (SysExit 1,
        \<lparr>world = [''code''], calls = [],
         out = [Line Fail ''Python 3.8+ is required, but you have 3.7'',
                Line Fail ''Installation aborted due to incompatible Python version.'']\<rparr>)"
    "sp_main ?E ''import nltk'' (start [''code''])
     = (SysExit 1,
        \<lparr>world = [''code''], calls = [],
         out = [Line Fail ''Python 3.8+ is required, but you have 3.7'',
                Line Fail ''Setup aborted due to incompatible Python version.'']\<rparr>)"
    by (simp_all add: ir_main_def sp_main_def check_python_version_def prog_defs Let_def
        sim_env_simps start_def version_lt_def min_version_def str_nat_examples)
  from prerequisite_failure_exits_before_acquisition
         [where E = ?E and s = "start [''code'']", THEN conjunct2, THEN conjunct2, THEN mp, OF check]
  have "vs_main ?E (start [''code''])
     = (SysExit 1,
        \<lparr>world = [''code''],
         calls = [Which ''code'', Run [''code'', ''--version''] (Some 10) True,
                  Which ''code-insiders''],
         out = [Line Warn ''Found code but it's not working properly'',
                Line Fail ''Visual Studio Code not found or not working'']\<rparr>)" .
  with old check mains show ?thesis by simp
qed

subsection \<open>Where the scripts leave through \<^verbatim>\<open>sys.exit\<close>\<close>

lemma no_exit_installs_required [no_exit_intros]:
  "no_exit (check_python_version E)"
  "no_exit (check_and_install_package E p n)"
  "no_exit (upgrade_pip E)"
  "no_exit (check_and_setup_geoparser E)"
  unfolding check_python_version_def check_and_install_package_def upgrade_pip_def
    check_and_setup_geoparser_def Let_def
  by (intro no_exit_intros)+

lemma no_exit_nltk_data_loop [no_exit_intros]: "no_exit (nltk_data_loop E ps)"
  by (induction ps) (auto intro!: no_exit_intros)

lemma no_exit_ir_spacy_loop [no_exit_intros]: "no_exit (ir_spacy_loop E ms)"
  by (induction ms) (auto intro!: no_exit_intros)

lemma no_exit_ir_essential_loop [no_exit_intros]: "no_exit (ir_essential_loop E ps)"
  by (induction ps) (auto intro!: no_exit_intros)

lemma no_exit_ir_core_loop [no_exit_intros]: "no_exit (ir_core_loop E essential ps failed)"
  by (induction ps arbitrary: failed) (auto intro!: no_exit_intros)

lemma no_exit_ir_resources [no_exit_intros]:
  "no_exit (ir_check_and_download_nltk_data E)"
  "no_exit (ir_check_and_download_spacy_model E)"
  unfolding ir_check_and_download_nltk_data_def ir_check_and_download_spacy_model_def
  by (intro no_exit_intros)+

lemma no_exit_setup [no_exit_intros]:
  "no_exit (create_virtual_environment E v)"
  "no_exit (upgrade_pip_in_venv E v)"
  "no_exit (install_package_in_venv E v p)"
  "no_exit (setup_jupyter_kernel E v k)"
  "no_exit (sp_check_and_download_nltk_data E script v)"
  "no_exit (setup_geoparser E v)"
  unfolding create_virtual_environment_def upgrade_pip_in_venv_def install_package_in_venv_def
    setup_jupyter_kernel_def sp_check_and_download_nltk_data_def setup_geoparser_def Let_def
  by (intro no_exit_intros)+

lemma no_exit_create_vscode_settings [no_exit_intros]:
  "no_exit (create_vscode_settings E v ws)"
  unfolding create_vscode_settings_def Let_def
  by (auto intro!: no_exit_intros split: json.splits)

lemma no_exit_sp_spacy_loop [no_exit_intros]: "no_exit (sp_spacy_loop E python ms)"
  by (induction ms) (auto intro!: no_exit_intros)

lemma no_exit_sp_check_and_download_spacy_model [no_exit_intros]:
  "no_exit (sp_check_and_download_spacy_model E v)"
  unfolding sp_check_and_download_spacy_model_def Let_def
  by (intro no_exit_intros)

lemma no_exit_sp_essential_loop [no_exit_intros]: "no_exit (sp_essential_loop E v ps failed)"
  by (induction ps arbitrary: failed) (auto intro!: no_exit_intros)

lemma no_exit_sp_rest_loop [no_exit_intros]: "no_exit (sp_rest_loop E v essential ps failed)"
  by (induction ps arbitrary: failed) (auto intro!: no_exit_intros)

lemma exits_after_no_exit: "no_exit m \<Longrightarrow> exits_after G m"
  unfolding exits_after_def no_exit_def by (metis fst_conv)

lemma exits_after_bind:
  assumes "exits_after G m" and "\<And>x. exits_after G (f x)"
  shows "exits_after G (bind m f)"
  unfolding exits_after_def
proof (intro allI impI)
  fix s n s'
  assume ex: "bind m f s = (SysExit n, s')"
  obtain r s1 where ms: "m s = (r, s1)" by (cases "m s")
  show "n = 1 \<and> out s' \<noteq> [] \<and> last (out s') \<in> G"
  proof (cases r)
    case (Ret x)
    with ex ms have "f x s1 = (SysExit n, s')" by (simp add: bind_def)
    with assms(2) [of x] show ?thesis unfolding exits_after_def by blast
  next
    case (Raise e)
    with ex ms show ?thesis by (simp add: bind_def)
  next
    case (SysExit k)
    with ex ms have "m s = (SysExit n, s')" by (simp add: bind_def)
    with assms(1) show ?thesis unfolding exits_after_def by blast
  qed
qed

lemma exits_after_report:
  "Line mk t \<in> G \<Longrightarrow> exits_after G (bind (say mk t) (\<lambda>_. sys_exit 1))"
  by (auto simp: exits_after_def prog_defs)

lemma exits_after_gate:
  assumes "no_exit m" and "Line mk t \<in> G" and "\<And>x. exits_after G (rest x)"
  shows "exits_after G
           (bind m (\<lambda>x. if c x then bind (say mk t) (\<lambda>_. sys_exit 1) else rest x))"
proof (rule exits_after_bind)
  show "exits_after G m"
    using assms(1) by (rule exits_after_no_exit)
  show "exits_after G (if c x then bind (say mk t) (\<lambda>_. sys_exit 1) else rest x)" for x
    using assms(2,3) by (simp add: exits_after_report)
qed

lemma sp_install_packages_exits:
  assumes "Line Fail ''Critical Jupyter packages failed to install. Cannot continue.'' \<in> G"
  shows "exits_after G (sp_install_packages E v)"
  unfolding sp_install_packages_def
  by (rule exits_after_gate) (auto intro!: no_exit_intros exits_after_no_exit assms)

lemma sp_main_exits:
  "exits_after
     {Line Fail ''Setup aborted due to incompatible Python version.'',
      Line Fail ''Failed to create virtual environment'',
      Line Fail ''Critical Jupyter packages failed to install. Cannot continue.'',
      Line Fail ''Failed to setup Jupyter kernel''}
     (sp_main E script)"
  unfolding sp_main_def Let_def
  apply (rule exits_after_gate, rule no_exit_intros, simp)
  apply (rule exits_after_gate, rule no_exit_intros, simp)
  apply (rule exits_after_bind, rule exits_after_no_exit, rule no_exit_intros)
  apply (rule exits_after_bind, rule exits_after_no_exit, intro no_exit_intros)
  apply (rule exits_after_bind, rule sp_install_packages_exits, simp)
  apply (rule exits_after_gate, rule no_exit_intros, simp)
  apply (rule exits_after_no_exit, intro no_exit_intros)
  done

lemma ir_main_exit_iff:
  "fst (ir_main E s) = SysExit n \<longleftrightarrow> n = 1 \<and> version_lt (version_info E) min_version"
proof (cases "version_lt (version_info E) min_version")
  case True
  with ir_main_too_old [of E s] show ?thesis by auto
next
  case False
  from check_python_version_compatible [OF False] obtain t where
    cv: "check_python_version E s = (Ret True, s\<lparr>out := out s @ [Line Ok t]\<rparr>)" by blast
  have "no_exit
     (bind (upgrade_pip E) (\<lambda>_.
      bind (ir_essential_loop E ir_essential_packages) (\<lambda>_.
      bind (ir_core_loop E ir_essential_packages ir_core_packages []) (\<lambda>failed_packages.
      bind (ir_check_and_download_nltk_data E) (\<lambda>_.
      bind (ir_check_and_download_spacy_model E) (\<lambda>_.
      bind (check_and_setup_geoparser E) (\<lambda>_.
      if failed_packages \<noteq> []
      then say Fail (''Failed to install: '' @ join_str '', '' failed_packages)
      else say Ok ''All packages installed successfully!'')))))))"
    by (intro no_exit_intros)
  from no_exitD [OF this] cv have "fst (ir_main E s) \<noteq> SysExit n"
    by (simp add: ir_main_def bind_def [of "check_python_version E"])
  with False show ?thesis by simp
qed

text \<open>
  Claim C3, as stated, fails for \<^verbatim>\<open>setup_python_environment.py\<close>: the failed
  installation of one of its three essential packages makes the run exit with status 1.
  On the simulated machine below the interpreter is 3.11, so the version check passes, and
  every command succeeds but the installation of \<^verbatim>\<open>jupyter\<close>.
\<close>

theorem essential_failure_exit_counterexample:
  "\<not> version_lt
       (version_info
          (sim_env (3, 11) ''Linux''
             (\<lambda>argv. if argv = pip_install_cmd ''/course/ds101_env/bin/python'' ''jupyter''
                      then 1 else 0)
             pip_provides))
       min_version
   \<and> exit_status
       (fst (sp_main
               (sim_env (3, 11) ''Linux''
                  (\<lambda>argv. if argv = pip_install_cmd ''/course/ds101_env/bin/python'' ''jupyter''
                           then 1 else 0)
                  pip_provides)
               ''import nltk'' (start []))) = 1
   \<and> out (snd (sp_main
                 (sim_env (3, 11) ''Linux''
                    (\<lambda>argv. if argv = pip_install_cmd ''/course/ds101_env/bin/python'' ''jupyter''
                             then 1 else 0)
                    pip_provides)
                 ''import nltk'' (start [])))
     = [Line Ok ''Python version 3.11 is compatible'',
        Line Ok ''Virtual environment created successfully'',
        Line Ok ''Pip upgraded successfully in virtual environment'',
        Line Ok ''ipykernel installed successfully'',
        Line Ok ''jupyterlab installed successfully'',
        LineExc Fail ''Failed to install jupyter: '' CalledProcessError,
        Line Fail ''Critical package jupyter failed to install!'',
        Line Fail ''Critical Jupyter packages failed to install. Cannot continue.'']"
  by (simp add: sp_main_def sp_install_packages_def sp_essential_packages_def
      check_python_version_def create_virtual_environment_def upgrade_pip_in_venv_def
      install_package_in_venv_def get_venv_python_def pip_install_cmd_def prog_defs call_defs
      Let_def sim_env_simps start_def version_lt_def min_version_def str_nat_examples
      pip_provides_def)

text \<open>
  Claim C3, amended. \<^verbatim>\<open>installs_required.py\<close> leaves through \<^verbatim>\<open>sys.exit\<close> exactly when
  the version check fails, and then with status 1: no failure of a package, a model or a
  data download makes it exit. \<^verbatim>\<open>setup_python_environment.py\<close> leaves through
  \<^verbatim>\<open>sys.exit\<close> only with status 1 and only directly after one of four reports: the version
  is incompatible, the virtual environment could not be created, a critical (essential)
  Jupyter package failed to install, the Jupyter kernel could not be set up. Its loop over
  the remaining packages never exits, whatever the installations return, and neither does
  the package loop of \<^verbatim>\<open>installs_required.py\<close>. (A run that ends in an uncaught exception
  is neither: the interpreter gives it status 1.)
\<close>

theorem exits_only_at_the_gates:
  "(fst (ir_main E s) = SysExit n \<longleftrightarrow> n = 1 \<and> version_lt (version_info E) min_version)
   \<and> (sp_main E script s = (SysExit k, s')
      \<longrightarrow> k = 1 \<and> out s' \<noteq> []
        \<and> last (out s')
            \<in> {Line Fail ''Setup aborted due to incompatible Python version.'',
               Line Fail ''Failed to create virtual environment'',
               Line Fail ''Critical Jupyter packages failed to install. Cannot continue.'',
               Line Fail ''Failed to setup Jupyter kernel''})
   \<and> (\<forall>j. fst (sp_rest_loop E v essential packages failed s) \<noteq> SysExit j)
   \<and> (\<forall>j. fst (ir_core_loop E essential packages failed s) \<noteq> SysExit j)"
proof -
  have "sp_main E script s = (SysExit k, s')
      \<longrightarrow> k = 1 \<and> out s' \<noteq> []
        \<and> last (out s')
            \<in> {Line Fail ''Setup aborted due to incompatible Python version.'',
               Line Fail ''Failed to create virtual environment'',
               Line Fail ''Critical Jupyter packages failed to install. Cannot continue.'',
               Line Fail ''Failed to setup Jupyter kernel''}"
    using sp_main_exits [of E script] unfolding exits_after_def by blast
  moreover have "fst (sp_rest_loop E v essential packages failed s) \<noteq> SysExit j" for j
    by (rule no_exitD [OF no_exit_sp_rest_loop])
  moreover have "fst (ir_core_loop E essential packages failed s) \<noteq> SysExit j" for j
    by (rule no_exitD [OF no_exit_ir_core_loop])
  ultimately show ?thesis
    using ir_main_exit_iff [of E s n] by blast
qed

theorem exits_only_at_the_gates_witness:
  "sp_main
     (sim_env (3, 11) ''Linux''
        (\<lambda>argv. if argv = pip_install_cmd ''/course/ds101_env/bin/python'' ''ipykernel''
                 then 1 else 0)
        pip_provides)
     ''import nltk'' (start [])
   = (SysExit 1,
      \<lparr>world = [''jupyter'', ''jupyterlab'', ''pip'', ''/course/ds101_env''],
       calls = [PathExists ''/course/ds101_env'', VenvCreate ''/course/ds101_env'',
                Run (pip_install_cmd ''/course/ds101_env/bin/python'' ''pip'') None False,
                Run (pip_install_cmd ''/course/ds101_env/bin/python'' ''ipykernel'') None False,
                Run (pip_install_cmd ''/course/ds101_env/bin/python'' ''jupyterlab'') None False,
                Run (pip_install_cmd ''/course/ds101_env/bin/python'' ''jupyter'') None False],
       out = [Line Ok ''Python version 3.11 is compatible'',
              Line Ok ''Virtual environment created successfully'',
              Line Ok ''Pip upgraded successfully in virtual environment'',
              LineExc Fail ''Failed to install ipykernel: '' CalledProcessError,
              Line Fail ''Critical package ipykernel failed to install!'',
              Line Ok ''jupyterlab installed successfully'',
              Line Ok ''jupyter installed successfully'',
              Line Fail ''Critical Jupyter packages failed to install. Cannot continue.'']\<rparr>)"
proof -
  have run: ?thesis
    by (simp add: sp_main_def sp_install_packages_def sp_essential_packages_def
        check_python_version_def create_virtual_environment_def upgrade_pip_in_venv_def
        install_package_in_venv_def get_venv_python_def pip_install_cmd_def prog_defs call_defs
        Let_def sim_env_simps start_def version_lt_def min_version_def str_nat_examples
        pip_provides_def)
  from exits_only_at_the_gates [THEN conjunct2, THEN conjunct1, THEN mp, OF run]
  show ?thesis by (simp only: run)
qed

subsection \<open>The loops over the capabilities\<close>











end
